theory Spec2Isabelle
  imports Complex_Main "HOL-Library.Word"
begin

text \<open>
  The repository holds three small OpenGL demos, each a \<^verbatim>\<open>main\<close> package of its own. Where
  two of them define a function of the same name with a different body, the definitions
  below carry a prefix: \<open>hello_\<close> for the textured demo (\<^verbatim>\<open>hello.go\<close>, window title
  \<^verbatim>\<open>Hello World\<close>), \<open>testing3_\<close> for the shader demo (window title \<^verbatim>\<open>Testing 3+\<close>). The
  third, the fixed-pipeline demo (window title \<^verbatim>\<open>Testing\<close>), contributes \<^verbatim>\<open>drawScene\<close>,
  \<^verbatim>\<open>hsb2rgb\<close> and a callback that prints.
\<close>

section \<open>Colour conversion\<close>

text \<open>
  The demos compute colours in \<^verbatim>\<open>float32\<close> and call \<^verbatim>\<open>math.Mod\<close> and \<^verbatim>\<open>math.Abs\<close> in
  \<^verbatim>\<open>float64\<close>. The embedding uses exact real arithmetic: the conversions between the two
  float types are the identity and no operation rounds. Infinities and NaN have no
  counterpart here.

  \<^verbatim>\<open>math.Mod(x, y)\<close> is the remainder of the division truncated towards zero, so its sign
  is the sign of \<open>x\<close>.
\<close>

definition math_Mod :: "real \<Rightarrow> real \<Rightarrow> real" where
  "math_Mod x y =
     x - y * real_of_int (if x / y < 0 then \<lceil>x / y\<rceil> else \<lfloor>x / y\<rfloor>)"

text \<open>\<^verbatim>\<open>hsb2rgb\<close>, the same text in both demos that draw the colour circle.\<close>

definition hsb2rgb :: "real \<Rightarrow> real \<Rightarrow> real \<Rightarrow> real \<times> real \<times> real" where
  "hsb2rgb h s b =
     (let c = b * s;
          h = h * 6;
          x = c * (1 - \<bar>math_Mod h 2 - 1\<bar>)
      in if h < 1 then (c, x, 0)
         else if h < 2 then (x, c, 0)
         else if h < 3 then (0, c, x)
         else if h < 4 then (0, x, c)
         else if h < 5 then (x, 0, c)
         else (c, 0, x))"

text \<open>
  The specification's side of the comparison: the remainder modulo 2 of a real number,
  the secondary component and the lookup table indexed by the integer sector. The table
  has no entry outside the six sectors.
\<close>

definition spec_mod2 :: "real \<Rightarrow> real" where
  "spec_mod2 h = h - 2 * real_of_int \<lfloor>h / 2\<rfloor>"

definition spec_secondary :: "real \<Rightarrow> real \<Rightarrow> real" where
  "spec_secondary c h = c * (1 - \<bar>spec_mod2 h - 1\<bar>)"

definition spec_sector_table :: "int \<Rightarrow> real \<Rightarrow> real \<Rightarrow> (real \<times> real \<times> real) option" where
  "spec_sector_table k c x =
     (if k = 0 then Some (c, x, 0)
      else if k = 1 then Some (x, c, 0)
      else if k = 2 then Some (0, c, x)
      else if k = 3 then Some (0, x, c)
      else if k = 4 then Some (x, 0, c)
      else if k = 5 then Some (c, 0, x)
      else None)"

section \<open>Aspect correction\<close>

text \<open>
  \<^verbatim>\<open>drawScene\<close> of the fixed-pipeline demo reads the framebuffer size and passes four
  bounds to \<^verbatim>\<open>gl.Ortho\<close>. \<open>drawScene_ratio\<close> is its local \<^verbatim>\<open>ratio\<close> and
  \<open>drawScene_ortho\<close> the tuple \<^verbatim>\<open>(x1, x2, y1, y2)\<close>. A framebuffer of height 0 makes the
  Go quotient infinite or NaN; here division by zero is 0, so the theorems are stated for
  positive sizes.
\<close>

definition drawScene_ratio :: "int \<Rightarrow> int \<Rightarrow> real" where
  "drawScene_ratio width height = real_of_int width / real_of_int height"

definition drawScene_ortho :: "int \<Rightarrow> int \<Rightarrow> real \<times> real \<times> real \<times> real" where
  "drawScene_ortho width height =
     (let ratio = drawScene_ratio width height
      in if ratio > 1 then (- ratio, ratio, - 1, 1)
         else (- 1, 1, - 1 / ratio, 1 / ratio))"

text \<open>
  \<^verbatim>\<open>render\<close> of the shader demo has no projection matrix: it scales the coordinates in the
  vertex shader by \<^verbatim>\<open>(xmul, ymul)\<close>, with \<^verbatim>\<open>ra = 0.95\<close>.
\<close>

definition render_ra :: real where
  "render_ra = 95 / 100"

definition render_mul :: "int \<Rightarrow> int \<Rightarrow> real \<times> real" where
  "render_mul width height =
     (let ra = render_ra;
          ratio = real_of_int width / real_of_int height
      in if ratio > 1 then (ra / ratio, ra)
         else (ra, ra * ratio))"

section \<open>The character callback\<close>

text \<open>
  Of the window only the close-requested flag matters. A \<^verbatim>\<open>rune\<close> is a 32-bit code point;
  \<^verbatim>\<open>'q'\<close> is 113. The fixed-pipeline demo prints the character and a newline before the
  test; its output, as code points, is the first component of the result. The verb
  \<^verbatim>\<open>%c\<close> prints U+FFFD for a value that is not a Unicode code point.
\<close>

record window =
  shouldClose :: bool

definition SetShouldClose :: "window \<Rightarrow> bool \<Rightarrow> window" where
  "SetShouldClose w v = w\<lparr>shouldClose := v\<rparr>"

definition charCallBack :: "window \<Rightarrow> 32 word \<Rightarrow> window" where
  "charCallBack w char = (if char = 113 then SetShouldClose w True else w)"

definition printed :: "32 word \<Rightarrow> 32 word" where
  "printed char =
     (if sint char < 0 \<or> 0x10FFFF < sint char \<or> (0xD800 \<le> sint char \<and> sint char \<le> 0xDFFF)
      then 0xFFFD else char)"

definition charCallBack_printing :: "window \<Rightarrow> 32 word \<Rightarrow> 32 word list \<times> window" where
  "charCallBack_printing w char =
     ([printed char, 10], if char = 113 then SetShouldClose w True else w)"

section \<open>Images\<close>

text \<open>
  The part of Go's \<^verbatim>\<open>image\<close> and \<^verbatim>\<open>image/draw\<close> packages that texture loading uses. A
  decoded image is known through \<^verbatim>\<open>Bounds\<close> and \<^verbatim>\<open>At\<close>; \<open>At\<close> gives the colour already
  converted to 8-bit RGBA, as \<^verbatim>\<open>draw.Draw\<close> stores it. \<open>ImgStride\<close> is the row stride of the
  decoder's concrete image type, which the \<^verbatim>\<open>image.Image\<close> interface does not show.

  An \<^verbatim>\<open>*image.RGBA\<close> keeps its pixels in the byte slice \<^verbatim>\<open>Pix\<close>, four bytes for the point
  \<open>(x, y)\<close> at offset \<open>(y - Rect.Min.Y) * Stride + (x - Rect.Min.X) * 4\<close>. The embedding keeps
  the pixel stored for each point instead of the bytes.
\<close>

type_synonym Point = "int \<times> int"
type_synonym Color = "8 word \<times> 8 word \<times> 8 word \<times> 8 word"

record Rectangle =
  rMin :: Point
  rMax :: Point

record Image =
  Bounds :: Rectangle
  ImgStride :: int
  At :: "Point \<Rightarrow> Color"

record RGBA =
  Pix :: "Point \<Rightarrow> Color"
  Stride :: int
  Rect :: Rectangle

definition image_Rect :: "int \<Rightarrow> int \<Rightarrow> int \<Rightarrow> int \<Rightarrow> Rectangle" where
  "image_Rect x0 y0 x1 y1 =
     (let (x0, x1) = (if x0 > x1 then (x1, x0) else (x0, x1));
          (y0, y1) = (if y0 > y1 then (y1, y0) else (y0, y1))
      in \<lparr>rMin = (x0, y0), rMax = (x1, y1)\<rparr>)"

definition Dx :: "Rectangle \<Rightarrow> int" where
  "Dx r = fst (rMax r) - fst (rMin r)"

definition Dy :: "Rectangle \<Rightarrow> int" where
  "Dy r = snd (rMax r) - snd (rMin r)"

definition Size :: "Rectangle \<Rightarrow> Point" where
  "Size r = (fst (rMax r) - fst (rMin r), snd (rMax r) - snd (rMin r))"

definition Empty :: "Rectangle \<Rightarrow> bool" where
  "Empty r \<longleftrightarrow> fst (rMin r) \<ge> fst (rMax r) \<or> snd (rMin r) \<ge> snd (rMax r)"

definition ZR :: Rectangle where
  "ZR = \<lparr>rMin = (0, 0), rMax = (0, 0)\<rparr>"

definition Intersect :: "Rectangle \<Rightarrow> Rectangle \<Rightarrow> Rectangle" where
  "Intersect r s =
     (let r = \<lparr>rMin = (max (fst (rMin r)) (fst (rMin s)), max (snd (rMin r)) (snd (rMin s))),
               rMax = (min (fst (rMax r)) (fst (rMax s)), min (snd (rMax r)) (snd (rMax s)))\<rparr>
      in if Empty r then ZR else r)"

definition Add :: "Rectangle \<Rightarrow> Point \<Rightarrow> Rectangle" where
  "Add r p = \<lparr>rMin = (fst (rMin r) + fst p, snd (rMin r) + snd p),
              rMax = (fst (rMax r) + fst p, snd (rMax r) + snd p)\<rparr>"

definition In :: "Point \<Rightarrow> Rectangle \<Rightarrow> bool" where
  "In p r \<longleftrightarrow> fst (rMin r) \<le> fst p \<and> fst p < fst (rMax r)
            \<and> snd (rMin r) \<le> snd p \<and> snd p < snd (rMax r)"

text \<open>
  The process ends in two ways: \<^verbatim>\<open>log.Fatalln(err)\<close>, reached through the helper \<^verbatim>\<open>x\<close>,
  prints the error's message and exits with status 1; a panic of the runtime prints its
  own message.
\<close>

datatype fatal = Fatal string | Panic string

text \<open>
  \<^verbatim>\<open>image.NewRGBA\<close> allocates \<open>4 * Dx * Dy\<close> zero bytes and panics when that length is
  negative or exceeds the largest \<^verbatim>\<open>int\<close>.
\<close>

definition image_NewRGBA :: "Rectangle \<Rightarrow> fatal + RGBA" where
  "image_NewRGBA r =
     (if Dx r < 0 \<or> Dy r < 0 \<or> 4 * Dx r * Dy r > 2 ^ 63 - 1
      then Inl (Panic ''image: NewRGBA Rectangle has huge or negative dimensions'')
      else Inr \<lparr>Pix = (\<lambda>p. (0, 0, 0, 0)), Stride = 4 * Dx r, Rect = r\<rparr>)"

text \<open>
  \<^verbatim>\<open>draw.Draw(dst, r, src, sp, draw.Src)\<close>: the rectangle is clipped to the destination and
  to the source bounds moved so that \<open>sp\<close> lies on \<open>r.Min\<close>; every point of the clipped
  rectangle receives the source pixel at the same distance from \<open>sp\<close>.
\<close>

definition draw_Draw :: "RGBA \<Rightarrow> Rectangle \<Rightarrow> Image \<Rightarrow> Point \<Rightarrow> RGBA" where
  "draw_Draw dst r src sp =
     (let orig = rMin r;
          r = Intersect r (Rect dst);
          r = Intersect r (Add (Bounds src) (fst orig - fst sp, snd orig - snd sp))
      in if Empty r then dst
         else dst\<lparr>Pix := (\<lambda>p. if In p r
                               then At src (fst p - fst orig + fst sp, snd p - snd orig + snd sp)
                               else Pix dst p)\<rparr>)"

text \<open>What \<^verbatim>\<open>os.Open\<close> followed by \<^verbatim>\<open>image.Decode\<close> finds under a file name.\<close>

datatype opened = NoFile string | Undecodable string | Decodes Image

text \<open>
  Row \<open>k\<close> of the buffer handed to \<^verbatim>\<open>gl.TexImage2D\<close>, counted from the start of \<^verbatim>\<open>Pix\<close>.
\<close>

definition bufferRow :: "RGBA \<Rightarrow> int \<Rightarrow> Color list" where
  "bufferRow rgba k =
     map (\<lambda>x. Pix rgba (x, snd (rMin (Rect rgba)) + k))
       [fst (rMin (Rect rgba)) .. fst (rMax (Rect rgba)) - 1]"

section \<open>The graphics context\<close>

text \<open>
  The OpenGL binding is not part of the repository. The embedding keeps the part of the
  context that the demos' calls read and write: the tables of buffer, texture, shader
  and program objects, the buffer and texture bindings, the vertex attribute arrays, and
  a trace of the calls a frame can issue. What the driver decides (whether a shader compiles, its diagnostics, the
  locations of variables) is a parameter of type \<open>driver\<close>. Object names come from a
  counter, so that every new name is unused.
\<close>

type_synonym uint32 = "32 word"
type_synonym int32 = "32 word"

datatype target = ARRAY_BUFFER | ELEMENT_ARRAY_BUFFER
datatype mode = LINES | LINE_LOOP | TRIANGLES | TRIANGLE_STRIP
datatype shaderType = VERTEX_SHADER | FRAGMENT_SHADER
datatype matrix = PROJECTION | MODELVIEW
datatype pname = TEXTURE_MIN_FILTER | TEXTURE_MAG_FILTER | TEXTURE_WRAP_S | TEXTURE_WRAP_T
datatype param = LINEAR | CLAMP_TO_EDGE
datatype format = RGBA_format | RGB8_format

datatype bufferData = Float32s "real list" | Uint32s "uint32 list"

type_synonym shaderObject = "shaderType \<times> string"

datatype call =
    Viewport int32 int32 int32 int32
  | Clear
  | MatrixMode matrix
  | LoadIdentity
  | UseProgram uint32
  | Uniform1f int32 real
  | Uniform1i int32 int32
  | ActiveTexture nat
  | BindTexture uint32
  | TexParameteri pname param
  | BindBuffer target uint32
  | VertexAttribPointer uint32 nat nat
  | EnableVertexAttribArray uint32
  | DisableVertexAttribArray uint32
  | LineWidth real
  | DrawElements mode int32

text \<open>
  What an indexed draw call finds: the contents of the bound element buffer and, for
  every enabled attribute array, its component count, its stride and the contents of the
  buffer it points into.
\<close>

record drawn =
  drawMode :: mode
  drawCount :: int32
  drawElements :: "bufferData option"
  drawArrays :: "(nat \<times> nat \<times> bufferData option) option list"

record texImage =
  internalFormat :: format
  texWidth :: int32
  texHeight :: int32
  texPixels :: RGBA

record GL =
  names :: nat
  calls :: "call list"
  binding :: "target \<Rightarrow> uint32"
  buffers :: "uint32 \<Rightarrow> bufferData option"
  textureBinding :: uint32
  textureImages :: "uint32 \<Rightarrow> texImage option"
  pointers :: "uint32 \<Rightarrow> (uint32 \<times> nat \<times> nat) option"
  enabled :: "uint32 list"
  draws :: "drawn list"
  shaders :: "uint32 \<Rightarrow> shaderObject option"
  programs :: "uint32 \<Rightarrow> uint32 list option"

text \<open>
  The driver's answers depend on what it is given: the kind and source text of a shader,
  and for a program the shader objects attached to it.
\<close>

record driver =
  compileStatus :: "shaderType \<Rightarrow> string \<Rightarrow> bool"
  shaderInfoLog :: "shaderType \<Rightarrow> string \<Rightarrow> string"
  linkStatus :: "shaderObject option list \<Rightarrow> bool"
  programInfoLog :: "shaderObject option list \<Rightarrow> string"
  uniformLocation :: "shaderObject option list \<Rightarrow> string \<Rightarrow> int32"
  attribLocation :: "shaderObject option list \<Rightarrow> string \<Rightarrow> int32"

definition gl_Init :: GL where
  "gl_Init = \<lparr>names = 0, calls = [], binding = (\<lambda>t. 0), buffers = (\<lambda>b. None),
     textureBinding = 0, textureImages = (\<lambda>t. None), pointers = (\<lambda>a. None),
     enabled = [], draws = [], shaders = (\<lambda>s. None), programs = (\<lambda>p. None)\<rparr>"

definition issue :: "call \<Rightarrow> GL \<Rightarrow> GL" where
  "issue c gl = gl\<lparr>calls := calls gl @ [c]\<rparr>"

definition genName :: "GL \<Rightarrow> uint32 \<times> GL" where
  "genName gl = (of_nat (Suc (names gl)), gl\<lparr>names := Suc (names gl)\<rparr>)"

definition gl_GenBuffers :: "GL \<Rightarrow> uint32 \<times> GL" where
  "gl_GenBuffers gl = genName gl"

definition gl_GenTextures :: "GL \<Rightarrow> uint32 \<times> GL" where
  "gl_GenTextures gl = genName gl"

text \<open>
  \<^verbatim>\<open>gl.Str\<close> turns a Go string into a C string and panics unless the string ends with a NUL
  byte.
\<close>

definition gl_Str :: "string \<Rightarrow> fatal + string" where
  "gl_Str str =
     (if str \<noteq> [] \<and> last str = CHR 0x00 then Inr str
      else Inl (Panic (''str argument missing null terminator: '' @ str)))"

definition gl_CreateShader :: "shaderType \<Rightarrow> GL \<Rightarrow> uint32 \<times> GL" where
  "gl_CreateShader shaderType gl =
     (let (shader, gl) = genName gl
      in (shader, gl\<lparr>shaders := (shaders gl)(shader \<mapsto> (shaderType, []))\<rparr>))"

definition gl_ShaderSource :: "uint32 \<Rightarrow> string \<Rightarrow> GL \<Rightarrow> GL" where
  "gl_ShaderSource shader csource gl =
     gl\<lparr>shaders := (shaders gl)(shader := map_option (\<lambda>(t, s). (t, csource)) (shaders gl shader))\<rparr>"

text \<open>
  \<^verbatim>\<open>gl.CompileShader\<close> followed by \<^verbatim>\<open>gl.GetShaderiv\<close> for \<^verbatim>\<open>COMPILE_STATUS\<close>, and the
  text of the shader's info log.
\<close>

definition gl_COMPILE_STATUS :: "driver \<Rightarrow> uint32 \<Rightarrow> GL \<Rightarrow> bool" where
  "gl_COMPILE_STATUS drv shader gl =
     (case shaders gl shader of None \<Rightarrow> False | Some (t, src) \<Rightarrow> compileStatus drv t src)"

definition gl_ShaderInfoLog :: "driver \<Rightarrow> uint32 \<Rightarrow> GL \<Rightarrow> string" where
  "gl_ShaderInfoLog drv shader gl =
     (case shaders gl shader of None \<Rightarrow> [] | Some (t, src) \<Rightarrow> shaderInfoLog drv t src)"

definition gl_CreateProgram :: "GL \<Rightarrow> uint32 \<times> GL" where
  "gl_CreateProgram gl =
     (let (program, gl) = genName gl
      in (program, gl\<lparr>programs := (programs gl)(program \<mapsto> [])\<rparr>))"

definition gl_AttachShader :: "uint32 \<Rightarrow> uint32 \<Rightarrow> GL \<Rightarrow> GL" where
  "gl_AttachShader program shader gl =
     gl\<lparr>programs := (programs gl)(program := map_option (\<lambda>ss. ss @ [shader]) (programs gl program))\<rparr>"

definition attached :: "GL \<Rightarrow> uint32 \<Rightarrow> shaderObject option list" where
  "attached gl program =
     (case programs gl program of None \<Rightarrow> [] | Some ss \<Rightarrow> map (shaders gl) ss)"

text \<open>
  \<^verbatim>\<open>gl.LinkProgram\<close> followed by \<^verbatim>\<open>gl.GetProgramiv\<close> for \<^verbatim>\<open>LINK_STATUS\<close>, the text of the
  program's info log, and the lookup of a variable by name (the name without its NUL).
\<close>

definition gl_LINK_STATUS :: "driver \<Rightarrow> uint32 \<Rightarrow> GL \<Rightarrow> bool" where
  "gl_LINK_STATUS drv program gl = linkStatus drv (attached gl program)"

definition gl_ProgramInfoLog :: "driver \<Rightarrow> uint32 \<Rightarrow> GL \<Rightarrow> string" where
  "gl_ProgramInfoLog drv program gl = programInfoLog drv (attached gl program)"

definition gl_GetUniformLocation :: "driver \<Rightarrow> uint32 \<Rightarrow> string \<Rightarrow> GL \<Rightarrow> int32" where
  "gl_GetUniformLocation drv program name gl = uniformLocation drv (attached gl program) name"

definition gl_GetAttribLocation :: "driver \<Rightarrow> uint32 \<Rightarrow> string \<Rightarrow> GL \<Rightarrow> int32" where
  "gl_GetAttribLocation drv program name gl = attribLocation drv (attached gl program) name"

definition gl_BindBuffer :: "target \<Rightarrow> uint32 \<Rightarrow> GL \<Rightarrow> GL" where
  "gl_BindBuffer target buffer gl =
     issue (BindBuffer target buffer) (gl\<lparr>binding := (binding gl)(target := buffer)\<rparr>)"

text \<open>\<^verbatim>\<open>gl.BufferData\<close> copies \<open>nbytes\<close> bytes, four for each element, into the bound buffer.\<close>

fun takeData :: "nat \<Rightarrow> bufferData \<Rightarrow> bufferData" where
  "takeData n (Float32s xs) = Float32s (take n xs)"
| "takeData n (Uint32s xs) = Uint32s (take n xs)"

definition gl_BufferData :: "target \<Rightarrow> nat \<Rightarrow> bufferData \<Rightarrow> GL \<Rightarrow> GL" where
  "gl_BufferData target nbytes bufferData gl =
     gl\<lparr>buffers := (buffers gl)(binding gl target \<mapsto> takeData (nbytes div 4) bufferData)\<rparr>"

definition gl_BindTexture :: "uint32 \<Rightarrow> GL \<Rightarrow> GL" where
  "gl_BindTexture texture gl = issue (BindTexture texture) (gl\<lparr>textureBinding := texture\<rparr>)"

definition gl_TexParameteri :: "pname \<Rightarrow> param \<Rightarrow> GL \<Rightarrow> GL" where
  "gl_TexParameteri pn p gl = issue (TexParameteri pn p) gl"

definition gl_TexImage2D :: "format \<Rightarrow> int32 \<Rightarrow> int32 \<Rightarrow> RGBA \<Rightarrow> GL \<Rightarrow> GL" where
  "gl_TexImage2D fmt width height pixels gl =
     gl\<lparr>textureImages := (textureImages gl)(textureBinding gl \<mapsto>
          \<lparr>internalFormat = fmt, texWidth = width, texHeight = height, texPixels = pixels\<rparr>)\<rparr>"

definition gl_Viewport :: "int32 \<Rightarrow> int32 \<Rightarrow> int32 \<Rightarrow> int32 \<Rightarrow> GL \<Rightarrow> GL" where
  "gl_Viewport x y width height gl = issue (Viewport x y width height) gl"

definition gl_Clear :: "GL \<Rightarrow> GL" where
  "gl_Clear gl = issue Clear gl"

definition gl_MatrixMode :: "matrix \<Rightarrow> GL \<Rightarrow> GL" where
  "gl_MatrixMode m gl = issue (MatrixMode m) gl"

definition gl_LoadIdentity :: "GL \<Rightarrow> GL" where
  "gl_LoadIdentity gl = issue LoadIdentity gl"

definition gl_UseProgram :: "uint32 \<Rightarrow> GL \<Rightarrow> GL" where
  "gl_UseProgram program gl = issue (UseProgram program) gl"

definition gl_Uniform1f :: "int32 \<Rightarrow> real \<Rightarrow> GL \<Rightarrow> GL" where
  "gl_Uniform1f location v gl = issue (Uniform1f location v) gl"

definition gl_Uniform1i :: "int32 \<Rightarrow> int32 \<Rightarrow> GL \<Rightarrow> GL" where
  "gl_Uniform1i location v gl = issue (Uniform1i location v) gl"

definition gl_ActiveTexture :: "nat \<Rightarrow> GL \<Rightarrow> GL" where
  "gl_ActiveTexture unit gl = issue (ActiveTexture unit) gl"

definition gl_LineWidth :: "real \<Rightarrow> GL \<Rightarrow> GL" where
  "gl_LineWidth width gl = issue (LineWidth width) gl"

text \<open>
  \<^verbatim>\<open>gl.VertexAttribPointer(index, size, gl.FLOAT, false, stride, gl.PtrOffset(0))\<close> attaches
  the buffer bound to \<^verbatim>\<open>ARRAY_BUFFER\<close> to the attribute.
\<close>

definition gl_VertexAttribPointer :: "uint32 \<Rightarrow> nat \<Rightarrow> nat \<Rightarrow> GL \<Rightarrow> GL" where
  "gl_VertexAttribPointer index components stride gl =
     issue (VertexAttribPointer index components stride)
       (gl\<lparr>pointers := (pointers gl)(index \<mapsto> (binding gl ARRAY_BUFFER, components, stride))\<rparr>)"

definition gl_EnableVertexAttribArray :: "uint32 \<Rightarrow> GL \<Rightarrow> GL" where
  "gl_EnableVertexAttribArray index gl =
     issue (EnableVertexAttribArray index) (gl\<lparr>enabled := List.insert index (enabled gl)\<rparr>)"

definition gl_DisableVertexAttribArray :: "uint32 \<Rightarrow> GL \<Rightarrow> GL" where
  "gl_DisableVertexAttribArray index gl =
     issue (DisableVertexAttribArray index) (gl\<lparr>enabled := removeAll index (enabled gl)\<rparr>)"

text \<open>\<^verbatim>\<open>gl.DrawElements(mode, count, gl.UNSIGNED_INT, gl.PtrOffset(0))\<close>.\<close>

definition gl_DrawElements :: "mode \<Rightarrow> int32 \<Rightarrow> GL \<Rightarrow> GL" where
  "gl_DrawElements mode count gl =
     issue (DrawElements mode count)
       (gl\<lparr>draws := draws gl @
          [\<lparr>drawMode = mode, drawCount = count,
            drawElements = buffers gl (binding gl ELEMENT_ARRAY_BUFFER),
            drawArrays = map (\<lambda>a. case pointers gl a of
                                     None \<Rightarrow> None
                                   | Some (b, components, stride) \<Rightarrow> Some (components, stride, buffers gl b))
                           (enabled gl)\<rparr>]\<rparr>)"

text \<open>
  The diagnostics of a shader or program: \<^verbatim>\<open>INFO_LOG_LENGTH\<close> counts the terminating NUL
  and is 0 when there is no log; \<^verbatim>\<open>GetShaderInfoLog\<close> and \<^verbatim>\<open>GetProgramInfoLog\<close> write at most
  \<open>bufSize\<close> bytes, the terminator among them, into the caller's buffer.
\<close>

definition INFO_LOG_LENGTH :: "string \<Rightarrow> nat" where
  "INFO_LOG_LENGTH text = (if text = [] then 0 else length text + 1)"

definition writeInfoLog :: "nat \<Rightarrow> string \<Rightarrow> string \<Rightarrow> string" where
  "writeInfoLog bufSize text buf =
     (if bufSize = 0 then buf
      else let n = min (bufSize - 1) (length text)
           in take n text @ [CHR 0x00] @ drop (n + 1) buf)"

text \<open>A sequence of calls that return nothing.\<close>

definition run :: "(GL \<Rightarrow> GL) list \<Rightarrow> GL \<Rightarrow> GL" where
  "run ops gl = fold (\<lambda>op. op) ops gl"

text \<open>
  A step that can end the process returns either the way the process ends, together
  with the context in which it ends, or its result. \<open>inContext\<close> adds the context to the
  failure of a step that does not touch it, \<open>andThen\<close> runs the next step when the
  previous one has returned, and \<open>ended\<close> reads how the process ended, if it did.
\<close>

definition inContext :: "GL \<Rightarrow> fatal + 'a \<Rightarrow> fatal \<times> GL + 'a" where
  "inContext gl m = (case m of Inl e \<Rightarrow> Inl (e, gl) | Inr v \<Rightarrow> Inr v)"

definition andThen :: "'e + 'a \<Rightarrow> ('a \<Rightarrow> 'e + 'b) \<Rightarrow> 'e + 'b" where
  "andThen m f = (case m of Inl e \<Rightarrow> Inl e | Inr v \<Rightarrow> f v)"

definition ended :: "fatal \<times> GL + 'a \<Rightarrow> fatal option" where
  "ended m = (case m of Inl (e, gl) \<Rightarrow> Some e | Inr v \<Rightarrow> None)"

text \<open>
  \<^verbatim>\<open>gl.Ptr\<close> takes the address of element 0 of a slice and panics when the slice is empty.
  The \<^verbatim>\<open>Pix\<close> of an \<^verbatim>\<open>*image.RGBA\<close> made by \<^verbatim>\<open>image.NewRGBA\<close> has \<open>4 * Dx * Dy\<close> bytes.
\<close>

fun dataLength :: "bufferData \<Rightarrow> nat" where
  "dataLength (Float32s xs) = length xs"
| "dataLength (Uint32s xs) = length xs"

definition gl_Ptr :: "bufferData \<Rightarrow> fatal + bufferData" where
  "gl_Ptr bufferData =
     (if dataLength bufferData = 0 then Inl (Panic ''reflect: slice index out of range'')
      else Inr bufferData)"

definition gl_Ptr_Pix :: "RGBA \<Rightarrow> fatal + RGBA" where
  "gl_Ptr_Pix rgba =
     (if 4 * Dx (Rect rgba) * Dy (Rect rgba) = 0
      then Inl (Panic ''reflect: slice index out of range'')
      else Inr rgba)"

section \<open>Creating OpenGL objects\<close>

definition makeBuffer :: "target \<Rightarrow> bufferData \<Rightarrow> nat \<Rightarrow> GL \<Rightarrow> uint32 \<times> GL" where
  "makeBuffer target bufferData bufferSize gl =
     (let (buffer, gl) = gl_GenBuffers gl;
          gl = gl_BindBuffer target buffer gl;
          gl = gl_BufferData target bufferSize bufferData gl
      in (buffer, gl))"

text \<open>
  \<^verbatim>\<open>makeTexture\<close> of the textured demo. The loop copies one row of the image in each
  round.
\<close>

function hello_flip :: "int \<Rightarrow> int \<Rightarrow> int \<Rightarrow> Image \<Rightarrow> RGBA \<Rightarrow> RGBA" where
  "hello_flip h height width img rgba =
     (if h < height
      then hello_flip (h + 1) height width img
             (draw_Draw rgba (image_Rect 0 (height - 1 - h) width (height - h)) img (0, h))
      else rgba)"
  by pat_completeness auto
termination
  by (relation "measure (\<lambda>(h, height, width, img, rgba). nat (height - h))") auto

declare hello_flip.simps [simp del]

definition hello_makeTexture ::
  "(string \<Rightarrow> opened) \<Rightarrow> string \<Rightarrow> GL \<Rightarrow> fatal \<times> GL + uint32 \<times> GL" where
  "hello_makeTexture disk filename gl =
     (case disk filename of
        NoFile err \<Rightarrow> Inl (Fatal err, gl)
      | Undecodable err \<Rightarrow> Inl (Fatal err, gl)
      | Decodes img \<Rightarrow>
          andThen (inContext gl (image_NewRGBA (Bounds img))) (\<lambda>rgba.
            if Stride rgba \<noteq> fst (Size (Rect rgba)) * 4
            then Inl (Fatal ''unsupported stride'', gl)
            else let ib = Bounds img;
                     width = fst (rMax ib);
                     height = snd (rMax ib);
                     rgba = hello_flip 0 height width img rgba;
                     (texture, gl) = gl_GenTextures gl;
                     gl = run [gl_BindTexture texture,
                               gl_TexParameteri TEXTURE_MIN_FILTER LINEAR,
                               gl_TexParameteri TEXTURE_MAG_FILTER LINEAR,
                               gl_TexParameteri TEXTURE_WRAP_S CLAMP_TO_EDGE,
                               gl_TexParameteri TEXTURE_WRAP_T CLAMP_TO_EDGE] gl
                 in andThen (inContext gl (gl_Ptr_Pix rgba)) (\<lambda>pixels.
                      Inr (texture,
                           gl_TexImage2D RGBA_format
                             (of_int (fst (Size (Rect rgba))))
                             (of_int (snd (Size (Rect rgba)))) pixels gl))))"

text \<open>
  \<^verbatim>\<open>makeTexture\<close> of the shader demo, which its \<^verbatim>\<open>makeResources\<close> never calls: one
  \<^verbatim>\<open>draw.Draw\<close> of the whole image, and \<^verbatim>\<open>RGB8\<close> as internal format.
\<close>

definition testing3_makeTexture ::
  "(string \<Rightarrow> opened) \<Rightarrow> string \<Rightarrow> GL \<Rightarrow> fatal \<times> GL + uint32 \<times> GL" where
  "testing3_makeTexture disk filename gl =
     (case disk filename of
        NoFile err \<Rightarrow> Inl (Fatal err, gl)
      | Undecodable err \<Rightarrow> Inl (Fatal err, gl)
      | Decodes img \<Rightarrow>
          andThen (inContext gl (image_NewRGBA (Bounds img))) (\<lambda>rgba.
            if Stride rgba \<noteq> fst (Size (Rect rgba)) * 4
            then Inl (Fatal ''unsupported stride'', gl)
            else let rgba = draw_Draw rgba (Rect rgba) img (0, 0);
                     (texture, gl) = gl_GenTextures gl;
                     gl = run [gl_BindTexture texture,
                               gl_TexParameteri TEXTURE_MIN_FILTER LINEAR,
                               gl_TexParameteri TEXTURE_MAG_FILTER LINEAR,
                               gl_TexParameteri TEXTURE_WRAP_S CLAMP_TO_EDGE,
                               gl_TexParameteri TEXTURE_WRAP_T CLAMP_TO_EDGE] gl
                 in andThen (inContext gl (gl_Ptr_Pix rgba)) (\<lambda>pixels.
                      Inr (texture,
                           gl_TexImage2D RGB8_format
                             (of_int (fst (Size (Rect rgba))))
                             (of_int (snd (Size (Rect rgba)))) pixels gl))))"

text \<open>Row \<open>k\<close> of the image that a call of \<^verbatim>\<open>makeTexture\<close> has uploaded.\<close>

definition uploadedRow :: "fatal \<times> GL + uint32 \<times> GL \<Rightarrow> int \<Rightarrow> Color list option" where
  "uploadedRow res k =
     (case res of
        Inl e \<Rightarrow> None
      | Inr (texture, gl) \<Rightarrow>
          map_option (\<lambda>t. bufferRow (texPixels t) k) (textureImages gl texture))"

definition makeShader ::
  "driver \<Rightarrow> shaderType \<Rightarrow> string \<Rightarrow> GL \<Rightarrow> fatal \<times> GL + uint32 \<times> GL" where
  "makeShader drv shaderType source gl =
     (let (shader, gl) = gl_CreateShader shaderType gl
      in andThen (inContext gl (gl_Str source)) (\<lambda>csource.
           let gl = gl_ShaderSource shader csource gl;
               status = gl_COMPILE_STATUS drv shader gl
           in if \<not> status
              then let logLength = INFO_LOG_LENGTH (gl_ShaderInfoLog drv shader gl);
                       log = replicate (logLength + 1) (CHR 0x00);
                       log = writeInfoLog logLength (gl_ShaderInfoLog drv shader gl) log
                   in Inl (Fatal (''failed to compile '' @ source @ '': '' @ log), gl)
              else Inr (shader, gl)))"

definition makeProgram ::
  "driver \<Rightarrow> uint32 \<Rightarrow> uint32 \<Rightarrow> GL \<Rightarrow> fatal \<times> GL + uint32 \<times> GL" where
  "makeProgram drv vertexShader fragmentShader gl =
     (let (program, gl) = gl_CreateProgram gl;
          gl = gl_AttachShader program vertexShader gl;
          gl = gl_AttachShader program fragmentShader gl;
          status = gl_LINK_STATUS drv program gl
      in if \<not> status
         then let logLength = INFO_LOG_LENGTH (gl_ProgramInfoLog drv program gl);
                  log = replicate (logLength + 1) (CHR 0x00);
                  log = writeInfoLog logLength (gl_ProgramInfoLog drv program gl) log
              in Inl (Fatal (''failed to link program: '' @ log), gl)
         else Inr (program, gl))"

text \<open>
  How the process ends when a shader does not compile or a program does not link: the
  message that \<^verbatim>\<open>makeShader\<close> and \<^verbatim>\<open>makeProgram\<close> build, with the diagnostics in a buffer
  of NUL bytes one longer than the log length.
\<close>

definition compileFailure :: "driver \<Rightarrow> shaderType \<Rightarrow> string \<Rightarrow> fatal" where
  "compileFailure drv shaderType source =
     Fatal (''failed to compile '' @ source @ '': '' @ shaderInfoLog drv shaderType source
            @ (if shaderInfoLog drv shaderType source = [] then [CHR 0x00]
               else [CHR 0x00, CHR 0x00]))"

definition linkFailure :: "driver \<Rightarrow> shaderObject option list \<Rightarrow> fatal" where
  "linkFailure drv objects =
     Fatal (''failed to link program: '' @ programInfoLog drv objects
            @ (if programInfoLog drv objects = [] then [CHR 0x00]
               else [CHR 0x00, CHR 0x00]))"

section \<open>The textured demo\<close>

definition unlines :: "string list \<Rightarrow> string" where
  "unlines ls = concat (map (\<lambda>l. l @ [CHR 10]) ls)"

definition v_glsl :: string where
  "v_glsl = CHR 10 # unlines
     [''#version 110'',
      '''',
      ''attribute vec2 position;'',
      '''',
      ''varying vec2 texcoord;'',
      '''',
      ''void main()'',
      ''{'',
      ''    gl_Position = vec4(position, 0.0, 1.0);'',
      ''    texcoord = position * vec2(0.5) + vec2(0.5);'',
      ''}''] @ [CHR 0x00]"

definition f_glsl :: string where
  "f_glsl = CHR 10 # unlines
     [''#version 110'',
      '''',
      ''uniform float fade_factor;'',
      ''uniform sampler2D textures[2];'',
      '''',
      ''varying vec2 texcoord;'',
      '''',
      ''void main()'',
      ''{'',
      ''    gl_FragColor = mix('',
      ''        texture2D(textures[0], texcoord),'',
      ''        texture2D(textures[1], texcoord),'',
      ''        fade_factor'',
      ''    );'',
      ''}''] @ [CHR 0x00]"

record hello_tUniforms =
  fadeFactor :: int32
  textures :: "int32 \<times> int32"

record hello_tAttributes =
  position :: int32

record hello_gResources =
  vertexBuffer :: uint32
  elementBuffer :: uint32
  textures :: "uint32 \<times> uint32"
  vertexShader :: uint32
  fragmentShader :: uint32
  program :: uint32
  uniforms :: hello_tUniforms
  attributes :: hello_tAttributes
  fadeFactor :: real

definition gVertexBufferData :: "real list" where
  "gVertexBufferData = [- 1, - 1, 1, - 1, - 1, 1, 1, 1]"

definition gElementBufferData :: "uint32 list" where
  "gElementBufferData = [0, 1, 2, 3]"

definition hello_makeResources ::
  "driver \<Rightarrow> (string \<Rightarrow> opened) \<Rightarrow> GL \<Rightarrow> fatal \<times> GL + hello_gResources \<times> GL" where
  "hello_makeResources drv disk gl =
     andThen (inContext gl (gl_Ptr (Float32s gVertexBufferData))) (\<lambda>ptr.
     let (vertexBuffer, gl) = makeBuffer ARRAY_BUFFER ptr (4 * length gVertexBufferData) gl
     in andThen (inContext gl (gl_Ptr (Uint32s gElementBufferData))) (\<lambda>ptr.
     let (elementBuffer, gl) = makeBuffer ELEMENT_ARRAY_BUFFER ptr
                                 (4 * length gElementBufferData) gl
     in andThen (hello_makeTexture disk ''hello1.png'' gl) (\<lambda>(textures0, gl).
        andThen (hello_makeTexture disk ''hello2.png'' gl) (\<lambda>(textures1, gl).
        andThen (makeShader drv VERTEX_SHADER v_glsl gl) (\<lambda>(vertexShader, gl).
        andThen (makeShader drv FRAGMENT_SHADER f_glsl gl) (\<lambda>(fragmentShader, gl).
        andThen (makeProgram drv vertexShader fragmentShader gl) (\<lambda>(program, gl).
        Inr (\<lparr>vertexBuffer = vertexBuffer,
              elementBuffer = elementBuffer,
              textures = (textures0, textures1),
              vertexShader = vertexShader,
              fragmentShader = fragmentShader,
              program = program,
              uniforms =
                \<lparr>hello_tUniforms.fadeFactor =
                   gl_GetUniformLocation drv program ''fade_factor'' gl,
                 hello_tUniforms.textures =
                   (gl_GetUniformLocation drv program ''textures[0]'' gl,
                    gl_GetUniformLocation drv program ''textures[1]'' gl)\<rparr>,
              attributes = \<lparr>position = gl_GetAttribLocation drv program ''position'' gl\<rparr>,
              fadeFactor = 0\<rparr>, gl))))))))"

text \<open>\<^verbatim>\<open>updateFadeFactor\<close>, with the seconds since \<^verbatim>\<open>start\<close> as argument.\<close>

definition updateFadeFactor :: "real \<Rightarrow> hello_gResources \<Rightarrow> hello_gResources" where
  "updateFadeFactor seconds r = r\<lparr>fadeFactor := sin seconds * (5 / 10) + 5 / 10\<rparr>"

text \<open>\<^verbatim>\<open>render\<close>, with the framebuffer size that \<^verbatim>\<open>w.GetFramebufferSize()\<close> returns.\<close>

definition hello_render :: "int \<times> int \<Rightarrow> hello_gResources \<Rightarrow> GL \<Rightarrow> GL" where
  "hello_render w r gl =
     (let (width, height) = w
      in run [gl_Viewport 0 0 (of_int width) (of_int height),
              gl_Clear,
              gl_MatrixMode PROJECTION,
              gl_LoadIdentity,
              gl_MatrixMode MODELVIEW,
              gl_LoadIdentity,
              gl_UseProgram (program r),
              gl_Uniform1f (hello_tUniforms.fadeFactor (uniforms r)) (fadeFactor r),
              gl_ActiveTexture 0,
              gl_BindTexture (fst (textures r)),
              gl_Uniform1i (fst (hello_tUniforms.textures (uniforms r))) 0,
              gl_ActiveTexture 1,
              gl_BindTexture (snd (textures r)),
              gl_Uniform1i (snd (hello_tUniforms.textures (uniforms r))) 1,
              gl_BindBuffer ARRAY_BUFFER (vertexBuffer r),
              gl_VertexAttribPointer (position (attributes r)) 2 8,
              gl_EnableVertexAttribArray (position (attributes r)),
              gl_BindBuffer ELEMENT_ARRAY_BUFFER (elementBuffer r),
              gl_DrawElements TRIANGLE_STRIP 4,
              gl_DisableVertexAttribArray (position (attributes r))] gl)"

text \<open>
  The part of \<^verbatim>\<open>main\<close> between the creation of the context and the loop: the loop
  starts with the resources only when \<^verbatim>\<open>makeResources\<close> returns; otherwise the process
  has ended, with a message and in the context that the calls made so far have left.
\<close>

datatype 'r process = Exited fatal GL | Looping 'r GL

definition exitMessage :: "'r process \<Rightarrow> fatal option" where
  "exitMessage p = (case p of Exited e gl \<Rightarrow> Some e | Looping r gl \<Rightarrow> None)"

definition contextOf :: "'r process \<Rightarrow> GL" where
  "contextOf p = (case p of Exited e gl \<Rightarrow> gl | Looping r gl \<Rightarrow> gl)"

definition hello_main :: "driver \<Rightarrow> (string \<Rightarrow> opened) \<Rightarrow> hello_gResources process" where
  "hello_main drv disk =
     (case hello_makeResources drv disk gl_Init of
        Inl (e, gl) \<Rightarrow> Exited e gl
      | Inr (r, gl) \<Rightarrow> Looping r gl)"

section \<open>The shader demo\<close>

definition vector_glsl1 :: string where
  "vector_glsl1 = CHR 10 # unlines
     [''#version 110'',
      '''',
      ''attribute vec2 position;'',
      '''',
      ''void main()'',
      ''{'',
      ''    gl_Position = vec4(position, 0.0, 1.0);'',
      ''}''] @ [CHR 0x00]"

definition fragment_glsl1 :: string where
  "fragment_glsl1 = CHR 10 # unlines
     [''#version 110'',
      '''',
      ''void main()'',
      ''{'',
      ''    gl_FragColor = vec4(0, 0, 0, 0);'',
      ''}''] @ [CHR 0x00]"

definition vector_glsl2 :: string where
  "vector_glsl2 = CHR 10 # unlines
     [''#version 110'',
      '''',
      ''uniform float xmul;'',
      ''uniform float ymul;'',
      ''uniform float sn;'',
      ''uniform float cs;'',
      '''',
      ''attribute vec3 vertexColor;'',
      ''attribute vec2 position;'',
      '''',
      ''varying vec3 color;'',
      '''',
      ''void main()'',
      ''{'',
      ''    gl_Position = vec4(xmul * (cs*position[0] + sn*position[1]), ymul * (sn*position[0] - cs*position[1]), 0.0, 1.0);'',
      ''    color = vertexColor;'',
      ''}''] @ [CHR 0x00]"

definition fragment_glsl2 :: string where
  "fragment_glsl2 = CHR 10 # unlines
     [''#version 110'',
      '''',
      ''varying vec3 color;'',
      '''',
      ''void main()'',
      ''{'',
      ''    gl_FragColor = vec4(color, 0);'',
      ''}''] @ [CHR 0x00]"

text \<open>
  The loop of \<^verbatim>\<open>makeResources\<close> that builds the colour circle. Its state is the three
  slices and the counter \<^verbatim>\<open>r.len3\<close>; the loop variable advances by 0.05 up to \<open>2 * pi\<close>.
\<close>

function testing3_circle ::
  "real \<Rightarrow> real list \<times> real list \<times> uint32 list \<times> int32
        \<Rightarrow> real list \<times> real list \<times> uint32 list \<times> int32" where
  "testing3_circle i (gColorBufferData3, gVertexBufferData3, gElementBufferData3, len3) =
     (if i < 2 * pi
      then testing3_circle (i + 5 / 100)
             (gColorBufferData3 @
                [fst (hsb2rgb (i / (2 * pi)) 1 1),
                 fst (snd (hsb2rgb (i / (2 * pi)) 1 1)),
                 snd (snd (hsb2rgb (i / (2 * pi)) 1 1))],
              gVertexBufferData3 @ [sin i, cos i],
              gElementBufferData3 @ [len3],
              len3 + 1)
      else (gColorBufferData3, gVertexBufferData3, gElementBufferData3, len3))"
  by pat_completeness auto
termination
proof (relation "measure (\<lambda>(i, acc). nat \<lceil>(2 * pi - i) * 20\<rceil>)")
  show "wf (measure (\<lambda>(i, acc). nat \<lceil>(2 * pi - i) * 20\<rceil>))" by simp
next
  fix i :: real and gColorBufferData3 gVertexBufferData3 :: "real list"
    and gElementBufferData3 :: "uint32 list" and len3 :: int32
  assume "i < 2 * pi"
  then have pos: "0 < (2 * pi - i) * 20" by simp
  have "(2 * pi - (i + 5 / 100)) * 20 = (2 * pi - i) * 20 - 1" by (simp add: algebra_simps)
  then have "\<lceil>(2 * pi - (i + 5 / 100)) * 20\<rceil> = \<lceil>(2 * pi - i) * 20\<rceil> - 1"
    by (simp only: ceiling_diff_one)
  moreover from pos have "0 < \<lceil>(2 * pi - i) * 20\<rceil>" by simp
  ultimately show "((i + 5 / 100,
             gColorBufferData3 @
               [fst (hsb2rgb (i / (2 * pi)) 1 1),
                fst (snd (hsb2rgb (i / (2 * pi)) 1 1)),
                snd (snd (hsb2rgb (i / (2 * pi)) 1 1))],
             gVertexBufferData3 @ [sin i, cos i], gElementBufferData3 @ [len3], len3 + 1),
            (i, gColorBufferData3, gVertexBufferData3, gElementBufferData3, len3))
           \<in> measure (\<lambda>(i, acc). nat \<lceil>(2 * pi - i) * 20\<rceil>)"
    by simp
qed

declare testing3_circle.simps [simp del]

record testing3_tUniforms =
  xmul :: int32
  ymul :: int32
  sin_uniform :: int32
  cos_uniform :: int32

record testing3_tAttributes =
  position :: int32
  color :: int32
  color3 :: int32

record testing3_gResources =
  vertexBuffer1 :: uint32
  elementBuffer1 :: uint32
  vertexShader1 :: uint32
  fragmentShader1 :: uint32
  program1 :: uint32
  attributes1 :: testing3_tAttributes
  vertexBuffer2 :: uint32
  elementBuffer2 :: uint32
  colorBuffer2 :: uint32
  vertexShader2 :: uint32
  fragmentShader2 :: uint32
  program2 :: uint32
  uniforms2 :: testing3_tUniforms
  attributes2 :: testing3_tAttributes
  vertexBuffer3 :: uint32
  elementBuffer3 :: uint32
  colorBuffer3 :: uint32
  len3 :: int32

definition gVertexBufferData1 :: "real list" where
  "gVertexBufferData1 = [- 1, 0, 1, 0, 0, - 1, 0, 1]"

definition gElementBufferData1 :: "uint32 list" where
  "gElementBufferData1 = [0, 1, 2, 3]"

definition gVertexBufferData2 :: "real list" where
  "gVertexBufferData2 = [0, 1, 866 / 1000, - (5 / 10), - (866 / 1000), - (5 / 10)]"

definition gElementBufferData2 :: "uint32 list" where
  "gElementBufferData2 = [0, 1, 2]"

definition gColorBufferData2 :: "real list" where
  "gColorBufferData2 = [1, 0, 0, 0, 1, 0, 0, 0, 1]"

definition testing3_makeResources ::
  "driver \<Rightarrow> GL \<Rightarrow> fatal \<times> GL + testing3_gResources \<times> GL" where
  "testing3_makeResources drv gl =
     andThen (inContext gl (gl_Ptr (Float32s gVertexBufferData1))) (\<lambda>ptr.
     let (vertexBuffer1, gl) = makeBuffer ARRAY_BUFFER ptr (4 * length gVertexBufferData1) gl
     in andThen (inContext gl (gl_Ptr (Uint32s gElementBufferData1))) (\<lambda>ptr.
     let (elementBuffer1, gl) = makeBuffer ELEMENT_ARRAY_BUFFER ptr
                                  (4 * length gElementBufferData1) gl
     in andThen (inContext gl (gl_Ptr (Float32s gVertexBufferData2))) (\<lambda>ptr.
     let (vertexBuffer2, gl) = makeBuffer ARRAY_BUFFER ptr (4 * length gVertexBufferData2) gl
     in andThen (inContext gl (gl_Ptr (Uint32s gElementBufferData2))) (\<lambda>ptr.
     let (elementBuffer2, gl) = makeBuffer ELEMENT_ARRAY_BUFFER ptr
                                  (4 * length gElementBufferData2) gl
     in andThen (inContext gl (gl_Ptr (Float32s gColorBufferData2))) (\<lambda>ptr.
     let (colorBuffer2, gl) = makeBuffer ARRAY_BUFFER ptr (4 * length gColorBufferData2) gl
     in andThen (makeShader drv VERTEX_SHADER vector_glsl1 gl) (\<lambda>(vertexShader1, gl).
        andThen (makeShader drv FRAGMENT_SHADER fragment_glsl1 gl) (\<lambda>(fragmentShader1, gl).
        andThen (makeProgram drv vertexShader1 fragmentShader1 gl) (\<lambda>(program1, gl).
        andThen (makeShader drv VERTEX_SHADER vector_glsl2 gl) (\<lambda>(vertexShader2, gl).
        andThen (makeShader drv FRAGMENT_SHADER fragment_glsl2 gl) (\<lambda>(fragmentShader2, gl).
        andThen (makeProgram drv vertexShader2 fragmentShader2 gl) (\<lambda>(program2, gl).
        let (gColorBufferData3, gVertexBufferData3, gElementBufferData3, len3) =
              testing3_circle 0 ([], [], [], 0)
        in andThen (inContext gl (gl_Ptr (Float32s gVertexBufferData3))) (\<lambda>ptr.
        let (vertexBuffer3, gl) = makeBuffer ARRAY_BUFFER ptr
                                    (4 * length gVertexBufferData3) gl
        in andThen (inContext gl (gl_Ptr (Uint32s gElementBufferData3))) (\<lambda>ptr.
        let (elementBuffer3, gl) = makeBuffer ELEMENT_ARRAY_BUFFER ptr
                                     (4 * length gElementBufferData3) gl
        in andThen (inContext gl (gl_Ptr (Float32s gColorBufferData3))) (\<lambda>ptr.
        let (colorBuffer3, gl) = makeBuffer ARRAY_BUFFER ptr
                                   (4 * length gColorBufferData3) gl
         in Inr (\<lparr>vertexBuffer1 = vertexBuffer1,
                  elementBuffer1 = elementBuffer1,
                  vertexShader1 = vertexShader1,
                  fragmentShader1 = fragmentShader1,
                  program1 = program1,
                  attributes1 =
                    \<lparr>position = gl_GetAttribLocation drv program1 ''position'' gl,
                     color = 0, color3 = 0\<rparr>,
                  vertexBuffer2 = vertexBuffer2,
                  elementBuffer2 = elementBuffer2,
                  colorBuffer2 = colorBuffer2,
                  vertexShader2 = vertexShader2,
                  fragmentShader2 = fragmentShader2,
                  program2 = program2,
                  uniforms2 =
                    \<lparr>xmul = gl_GetUniformLocation drv program2 ''xmul'' gl,
                     ymul = gl_GetUniformLocation drv program2 ''ymul'' gl,
                     sin_uniform = gl_GetUniformLocation drv program2 ''sn'' gl,
                     cos_uniform = gl_GetUniformLocation drv program2 ''cs'' gl\<rparr>,
                  attributes2 =
                    \<lparr>position = gl_GetAttribLocation drv program2 ''position'' gl,
                     color = gl_GetAttribLocation drv program2 ''vertexColor'' gl,
                     color3 = 0\<rparr>,
                  vertexBuffer3 = vertexBuffer3,
                  elementBuffer3 = elementBuffer3,
                  colorBuffer3 = colorBuffer3,
                  len3 = len3\<rparr>, gl)))))))))))))))"

text \<open>
  \<^verbatim>\<open>render\<close>, with the framebuffer size and the seconds since \<^verbatim>\<open>start\<close> as arguments.
\<close>

definition testing3_render :: "int \<times> int \<Rightarrow> real \<Rightarrow> testing3_gResources \<Rightarrow> GL \<Rightarrow> GL" where
  "testing3_render w d r gl =
     (let (width, height) = w;
          sin' = sin d;
          cos' = cos d;
          (xmul', ymul') = render_mul width height
      in run [gl_Viewport 0 0 (of_int width) (of_int height),
              gl_Clear,

              gl_UseProgram (program1 r),
              gl_BindBuffer ARRAY_BUFFER (vertexBuffer1 r),
              gl_VertexAttribPointer (position (attributes1 r)) 2 8,
              gl_EnableVertexAttribArray (position (attributes1 r)),
              gl_BindBuffer ELEMENT_ARRAY_BUFFER (elementBuffer1 r),
              gl_LineWidth 1,
              gl_DrawElements LINES 4,
              gl_DisableVertexAttribArray (position (attributes1 r)),

              gl_UseProgram (program2 r),
              gl_Uniform1f (xmul (uniforms2 r)) xmul',
              gl_Uniform1f (ymul (uniforms2 r)) ymul',
              gl_Uniform1f (sin_uniform (uniforms2 r)) sin',
              gl_Uniform1f (cos_uniform (uniforms2 r)) cos',
              gl_BindBuffer ARRAY_BUFFER (vertexBuffer2 r),
              gl_VertexAttribPointer (position (attributes2 r)) 2 8,
              gl_EnableVertexAttribArray (position (attributes2 r)),
              gl_BindBuffer ELEMENT_ARRAY_BUFFER (elementBuffer2 r),
              gl_EnableVertexAttribArray (color (attributes2 r)),
              gl_BindBuffer ARRAY_BUFFER (colorBuffer2 r),
              gl_VertexAttribPointer (color (attributes2 r)) 3 0,
              gl_DrawElements TRIANGLES 3,

              gl_BindBuffer ARRAY_BUFFER (vertexBuffer3 r),
              gl_VertexAttribPointer (position (attributes2 r)) 2 8,
              gl_BindBuffer ELEMENT_ARRAY_BUFFER (elementBuffer3 r),
              gl_BindBuffer ARRAY_BUFFER (colorBuffer3 r),
              gl_VertexAttribPointer (color (attributes2 r)) 3 0,
              gl_LineWidth 5,
              gl_DrawElements LINE_LOOP (len3 r),
              gl_DisableVertexAttribArray (color (attributes2 r)),
              gl_DisableVertexAttribArray (position (attributes2 r))] gl)"

definition testing3_main :: "driver \<Rightarrow> testing3_gResources process" where
  "testing3_main drv =
     (case testing3_makeResources drv gl_Init of
        Inl (e, gl) \<Rightarrow> Exited e gl
      | Inr (r, gl) \<Rightarrow> Looping r gl)"

section \<open>Draw passes\<close>

text \<open>
  A draw pass is the run of calls that prepares one indexed draw call, the draw call
  itself and the attribute-disable calls that directly follow it. \<open>passes\<close> cuts the trace
  of a frame into its passes.
\<close>

definition isEnable :: "call \<Rightarrow> bool" where
  "isEnable c = (case c of EnableVertexAttribArray a \<Rightarrow> True | _ \<Rightarrow> False)"

definition isDisable :: "call \<Rightarrow> bool" where
  "isDisable c = (case c of DisableVertexAttribArray a \<Rightarrow> True | _ \<Rightarrow> False)"

definition isDraw :: "call \<Rightarrow> bool" where
  "isDraw c = (case c of DrawElements m n \<Rightarrow> True | _ \<Rightarrow> False)"

fun splitPasses :: "bool \<Rightarrow> call list \<Rightarrow> call list \<Rightarrow> call list list" where
  "splitPasses drawn cur [] = (if cur = [] then [] else [cur])"
| "splitPasses drawn cur (c # cs) =
     (if drawn \<and> \<not> isDisable c
      then cur # splitPasses (isDraw c) [c] cs
      else splitPasses (drawn \<or> isDraw c) (cur @ [c]) cs)"

definition passes :: "call list \<Rightarrow> call list list" where
  "passes cs = splitPasses False [] cs"

definition enables :: "call list \<Rightarrow> nat" where
  "enables cs = length (filter isEnable cs)"

definition disables :: "call list \<Rightarrow> nat" where
  "disables cs = length (filter isDisable cs)"

text \<open>The calls that a frame adds to the trace of a context.\<close>

definition frame :: "(GL \<Rightarrow> GL) \<Rightarrow> GL \<Rightarrow> call list" where
  "frame render gl = drop (length (calls gl)) (calls (render gl))"

text \<open>
  The number of whole vertices that an attribute array can supply: consecutive vertices
  lie \<open>stride\<close> bytes apart, or tightly packed when the stride is 0, and each takes four
  bytes for a component.
\<close>

definition vertexCount :: "nat \<times> nat \<times> bufferData option \<Rightarrow> nat" where
  "vertexCount a =
     (case a of
        (components, stride, Some (Float32s vs)) \<Rightarrow>
          (let step = (if stride = 0 then 4 * components else stride);
               bytes = 4 * length vs
           in if bytes < 4 * components \<or> step = 0 then 0
              else (bytes - 4 * components) div step + 1)
      | _ \<Rightarrow> 0)"

text \<open>
  An indexed draw is in bounds when an element buffer of unsigned integers is bound, the
  count passed is the length of that buffer, and every index in it is less than the
  vertex count of every enabled attribute array.
\<close>

definition inBounds :: "drawn \<Rightarrow> bool" where
  "inBounds d =
     (case drawElements d of
        Some (Uint32s es) \<Rightarrow>
          sint (drawCount d) = int (length es)
          \<and> list_all (\<lambda>a. case a of
                             None \<Rightarrow> False
                           | Some arr \<Rightarrow> list_all (\<lambda>i. unat i < vertexCount arr) es)
              (drawArrays d)
      | _ \<Rightarrow> False)"

section \<open>Sample images\<close>

text \<open>
  An image of width 1 with two rows of different colour, an image of width 4 with three
  rows whose stride is 20, and disks on which every file name decodes to one of them.
\<close>

definition twoRows :: Image where
  "twoRows = \<lparr>Bounds = image_Rect 0 0 1 2, ImgStride = 4,
     At = (\<lambda>p. if p = (0, 0) then (1, 2, 3, 4)
               else if p = (0, 1) then (5, 6, 7, 8) else (0, 0, 0, 0))\<rparr>"

definition stride20 :: Image where
  "stride20 = \<lparr>Bounds = image_Rect 0 0 4 3, ImgStride = 20,
     At = (\<lambda>p. if In p (image_Rect 0 0 4 3) then (255, 255, 255, 255) else (0, 0, 0, 0))\<rparr>"

definition disk_twoRows :: "string \<Rightarrow> opened" where
  "disk_twoRows filename = Decodes twoRows"

definition disk_stride20 :: "string \<Rightarrow> opened" where
  "disk_stride20 filename = Decodes stride20"

section \<open>Pairing of attribute calls\<close>

text \<open>
  The numbers of enable and disable calls in each pass of a trace, and the pairing
  property: in every pass the two numbers agree.
\<close>

definition passCounts :: "call list \<Rightarrow> (nat \<times> nat) list" where
  "passCounts cs = map (\<lambda>p. (enables p, disables p)) (passes cs)"

definition paired :: "call list \<Rightarrow> bool" where
  "paired cs = list_all (\<lambda>p. enables p = disables p) (passes cs)"

section \<open>Sample resources\<close>

text \<open>
  Resources of the shader demo as \<^verbatim>\<open>makeResources\<close> numbers them on a fresh context, with
  the locations a driver may choose and the 126 points of the circle.
\<close>

definition testing3_sample :: testing3_gResources where
  "testing3_sample =
     \<lparr>vertexBuffer1 = 1, elementBuffer1 = 2, vertexShader1 = 6, fragmentShader1 = 7,
      program1 = 8, attributes1 = \<lparr>position = 0, color = 0, color3 = 0\<rparr>,
      vertexBuffer2 = 3, elementBuffer2 = 4, colorBuffer2 = 5, vertexShader2 = 9,
      fragmentShader2 = 10, program2 = 11,
      uniforms2 = \<lparr>xmul = 0, ymul = 1, sin_uniform = 2, cos_uniform = 3\<rparr>,
      attributes2 = \<lparr>position = 0, color = 1, color3 = 0\<rparr>,
      vertexBuffer3 = 12, elementBuffer3 = 13, colorBuffer3 = 14, len3 = 126\<rparr>"

section \<open>The render loop\<close>

text \<open>
  The loop of \<^verbatim>\<open>main\<close> for the iterations it makes before the window is closed. Each
  iteration has the framebuffer size and the seconds since \<^verbatim>\<open>start\<close> that it observes.
  The textured demo updates the fade factor before it renders.
\<close>

definition hello_frames :: "hello_gResources \<Rightarrow> ((int \<times> int) \<times> real) list \<Rightarrow> GL \<Rightarrow> GL" where
  "hello_frames r ticks gl =
     snd (fold (\<lambda>(w, seconds) (r, gl).
                  (updateFadeFactor seconds r, hello_render w (updateFadeFactor seconds r) gl))
            ticks (r, gl))"

definition testing3_frames ::
  "testing3_gResources \<Rightarrow> ((int \<times> int) \<times> real) list \<Rightarrow> GL \<Rightarrow> GL" where
  "testing3_frames r ticks gl = fold (\<lambda>(w, d). testing3_render w d r) ticks gl"

text \<open>
  A file name under which an image is found that fits into memory and has at least one
  pixel.
\<close>

definition loads :: "(string \<Rightarrow> opened) \<Rightarrow> string \<Rightarrow> bool" where
  "loads disk filename =
     (case disk filename of
        Decodes img \<Rightarrow>
          \<not> isl (image_NewRGBA (Bounds img)) \<and> 4 * Dx (Bounds img) * Dy (Bounds img) \<noteq> 0
      | _ \<Rightarrow> False)"

section \<open>Sample drivers\<close>

text \<open>
  Two drivers: one accepts every shader and program and numbers the variables of a
  program by the length of their names, the other rejects one shader, with a one-line
  log, and accepts the rest.
\<close>

definition driver_accepting :: driver where
  "driver_accepting =
     \<lparr>compileStatus = (\<lambda>t s. True), shaderInfoLog = (\<lambda>t s. []),
      linkStatus = (\<lambda>ss. True), programInfoLog = (\<lambda>ss. []),
      uniformLocation = (\<lambda>ss n. of_nat (length n)),
      attribLocation = (\<lambda>ss n. of_nat (length n))\<rparr>"

definition driver_rejecting :: "shaderType \<times> string \<Rightarrow> driver" where
  "driver_rejecting bad =
     \<lparr>compileStatus = (\<lambda>t s. (t, s) \<noteq> bad),
      shaderInfoLog = (\<lambda>t s. ''0:1: syntax error''),
      linkStatus = (\<lambda>ss. True), programInfoLog = (\<lambda>ss. []),
      uniformLocation = (\<lambda>ss n. of_nat (length n)),
      attribLocation = (\<lambda>ss n. of_nat (length n))\<rparr>"

section \<open>Properties of the colour conversion\<close>

lemma math_Mod_nonneg: "0 \<le> x \<Longrightarrow> math_Mod x 2 = spec_mod2 x"
proof -
  assume "0 \<le> x"
  then have "\<not> x / 2 < 0" by simp
  then show ?thesis by (simp add: math_Mod_def spec_mod2_def)
qed

lemma spec_mod2_range: "0 \<le> spec_mod2 x \<and> spec_mod2 x < 2"
proof -
  have "real_of_int \<lfloor>x / 2\<rfloor> \<le> x / 2" by linarith
  moreover have "x / 2 < real_of_int \<lfloor>x / 2\<rfloor> + 1" by linarith
  ultimately show ?thesis unfolding spec_mod2_def by linarith
qed

lemma secondary_range:
  assumes "0 \<le> c" and "c \<le> 1"
  shows "0 \<le> spec_secondary c h \<and> spec_secondary c h \<le> 1"
proof -
  let ?t = "1 - \<bar>spec_mod2 h - 1\<bar>"
  from spec_mod2_range [of h] have t: "0 \<le> ?t" "?t \<le> 1" by linarith+
  from assms(1) t(1) have lo: "0 \<le> c * ?t" by (rule mult_nonneg_nonneg)
  from assms t have "c * ?t \<le> 1 * 1" by (intro mult_mono) simp_all
  with lo show ?thesis by (simp add: spec_secondary_def)
qed

lemma hsb2rgb_cases:
  assumes "0 \<le> h"
  shows "hsb2rgb h s b =
     (let c = b * s; x = spec_secondary c (h * 6)
      in if h * 6 < 1 then (c, x, 0)
         else if h * 6 < 2 then (x, c, 0)
         else if h * 6 < 3 then (0, c, x)
         else if h * 6 < 4 then (0, x, c)
         else if h * 6 < 5 then (x, 0, c)
         else (c, 0, x))"
proof -
  from assms have "0 \<le> h * 6" by simp
  then have "math_Mod (h * 6) 2 = spec_mod2 (h * 6)" by (rule math_Mod_nonneg)
  then show ?thesis by (simp add: hsb2rgb_def spec_secondary_def Let_def)
qed

lemma floor_sector:
  fixes y :: real
  shows "real_of_int k \<le> y \<Longrightarrow> y < real_of_int k + 1 \<Longrightarrow> \<lfloor>y\<rfloor> = k"
  by linarith

text \<open>
  C1. For a hue in \<open>[0,1)\<close> and saturation and brightness in \<open>[0,1]\<close>, \<open>hsb2rgb\<close> returns
  the entry of the six-sector table for the sector \<open>\<lfloor>hue * 6\<rfloor>\<close>, with chroma
  \<open>c = brightness * saturation\<close> and secondary component
  \<open>x = c * (1 - \<bar>(hue * 6 mod 2) - 1\<bar>)\<close>.
\<close>

theorem hsb2rgb_sector_table:
  assumes "0 \<le> hue" and "hue < 1"
    and "0 \<le> saturation" and "saturation \<le> 1"
    and "0 \<le> brightness" and "brightness \<le> 1"
  shows "Some (hsb2rgb hue saturation brightness) =
     spec_sector_table \<lfloor>hue * 6\<rfloor> (brightness * saturation)
       (spec_secondary (brightness * saturation) (hue * 6))"
proof -
  let ?y = "hue * 6"
  from assms(1,2) have range: "0 \<le> ?y" "?y < 6" by simp_all
  consider "?y < 1" | "1 \<le> ?y" "?y < 2" | "2 \<le> ?y" "?y < 3"
    | "3 \<le> ?y" "?y < 4" | "4 \<le> ?y" "?y < 5" | "5 \<le> ?y"
    by linarith
  then show ?thesis
  proof cases
    case 1
    with range have "\<lfloor>?y\<rfloor> = 0" by (intro floor_sector) simp_all
    with 1 show ?thesis
      by (simp add: hsb2rgb_cases [OF assms(1)] spec_sector_table_def Let_def)
  next
    case 2
    then have "\<lfloor>?y\<rfloor> = 1" by (intro floor_sector) simp_all
    with 2 show ?thesis
      by (simp add: hsb2rgb_cases [OF assms(1)] spec_sector_table_def Let_def)
  next
    case 3
    then have "\<lfloor>?y\<rfloor> = 2" by (intro floor_sector) simp_all
    with 3 show ?thesis
      by (simp add: hsb2rgb_cases [OF assms(1)] spec_sector_table_def Let_def)
  next
    case 4
    then have "\<lfloor>?y\<rfloor> = 3" by (intro floor_sector) simp_all
    with 4 show ?thesis
      by (simp add: hsb2rgb_cases [OF assms(1)] spec_sector_table_def Let_def)
  next
    case 5
    then have "\<lfloor>?y\<rfloor> = 4" by (intro floor_sector) simp_all
    with 5 show ?thesis
      by (simp add: hsb2rgb_cases [OF assms(1)] spec_sector_table_def Let_def)
  next
    case 6
    with range have "\<lfloor>?y\<rfloor> = 5" by (intro floor_sector) simp_all
    with 6 show ?thesis
      by (simp add: hsb2rgb_cases [OF assms(1)] spec_sector_table_def Let_def)
  qed
qed

theorem hsb2rgb_sector_table_witness:
  "Some (hsb2rgb (1 / 2) 1 1) = spec_sector_table 3 1 1
   \<and> spec_sector_table 3 1 1 = Some (0, 1, 1)"
  using hsb2rgb_sector_table [of "1 / 2" 1 1]
  by (simp add: spec_sector_table_def spec_secondary_def spec_mod2_def)

text \<open>
  C6. At hue exactly 1 the scaled hue is 6, every comparison fails and the last branch
  returns \<open>(c, 0, x)\<close> with \<open>x = 0\<close>: the same triple as the entry of sector 0 at scaled
  hue 0, and the value of \<open>hsb2rgb\<close> at hue 0. The function is total, so it returns.
\<close>

theorem hsb2rgb_hue_one_wraps:
  "Some (hsb2rgb 1 saturation brightness) =
     spec_sector_table 0 (brightness * saturation)
       (spec_secondary (brightness * saturation) 0)
   \<and> hsb2rgb 1 saturation brightness = hsb2rgb 0 saturation brightness
   \<and> hsb2rgb 1 saturation brightness = (brightness * saturation, 0, 0)"
  by (simp add: hsb2rgb_def math_Mod_def spec_sector_table_def spec_secondary_def
      spec_mod2_def)

text \<open>
  C7. For a hue in \<open>[0,1)\<close> and saturation and brightness in \<open>[0,1]\<close>, the three components
  of the triple returned by \<open>hsb2rgb\<close> lie in \<open>[0,1]\<close>.
\<close>

theorem hsb2rgb_unit_cube:
  assumes "0 \<le> hue" and "hue < 1"
    and "0 \<le> saturation" and "saturation \<le> 1"
    and "0 \<le> brightness" and "brightness \<le> 1"
  shows "case hsb2rgb hue saturation brightness of
     (r, g, bl) \<Rightarrow> 0 \<le> r \<and> r \<le> 1 \<and> 0 \<le> g \<and> g \<le> 1 \<and> 0 \<le> bl \<and> bl \<le> 1"
proof -
  let ?c = "brightness * saturation"
  from assms(3,5) have c0: "0 \<le> ?c" by simp
  from assms(3-6) have "?c \<le> 1 * 1" by (intro mult_mono) simp_all
  then have c1: "?c \<le> 1" by simp
  from secondary_range [OF c0 c1, of "hue * 6"] c0 c1 show ?thesis
    by (simp add: hsb2rgb_cases [OF assms(1)] Let_def)
qed

theorem hsb2rgb_unit_cube_witness:
  "hsb2rgb (1 / 3) 1 1 = (0, 1, 0)
   \<and> (case hsb2rgb (1 / 3) 1 1 of
        (r, g, bl) \<Rightarrow> (0::real) \<le> r \<and> r \<le> 1 \<and> 0 \<le> g \<and> g \<le> 1 \<and> 0 \<le> bl \<and> bl \<le> 1)"
proof -
  have "hsb2rgb (1 / 3) 1 1 = (0, 1, 0)"
    by (simp add: hsb2rgb_def math_Mod_def)
  with hsb2rgb_unit_cube [of "1 / 3" 1 1] show ?thesis by simp
qed

section \<open>Properties of the aspect correction\<close>

text \<open>
  C5. For a framebuffer of positive width and height, with
  \<open>ratio = width / height\<close>, the bounds passed to the orthographic projection are
  \<open>(-ratio, ratio, -1, 1)\<close> when \<open>ratio > 1\<close> and \<open>(-1, 1, -1/ratio, 1/ratio)\<close> otherwise; ratio 2
  gives \<open>(-2, 2, -1, 1)\<close> and ratio 1/2 gives \<open>(-1, 1, -2, 2)\<close>.
\<close>

theorem drawScene_ortho_half_extents:
  assumes "0 < width" and "0 < height"
  shows "(drawScene_ratio width height > 1 \<longrightarrow>
            drawScene_ortho width height =
              (- drawScene_ratio width height, drawScene_ratio width height, - 1, 1))
       \<and> (\<not> drawScene_ratio width height > 1 \<longrightarrow>
            drawScene_ortho width height =
              (- 1, 1, - 1 / drawScene_ratio width height, 1 / drawScene_ratio width height))
       \<and> (drawScene_ratio width height = 2 \<longrightarrow>
            drawScene_ortho width height = (- 2, 2, - 1, 1))
       \<and> (drawScene_ratio width height = 1 / 2 \<longrightarrow>
            drawScene_ortho width height = (- 1, 1, - 2, 2))"
proof -
  have half: "drawScene_ortho width height = (- 1, 1, - 2, 2)"
    if "drawScene_ratio width height = 1 / 2"
    unfolding drawScene_ortho_def Let_def that by simp
  have two: "drawScene_ortho width height = (- 2, 2, - 1, 1)"
    if "drawScene_ratio width height = 2"
    unfolding drawScene_ortho_def Let_def that by simp
  have gt: "drawScene_ortho width height =
      (- drawScene_ratio width height, drawScene_ratio width height, - 1, 1)"
    if "drawScene_ratio width height > 1"
    using that by (simp add: drawScene_ortho_def Let_def)
  have le: "drawScene_ortho width height =
      (- 1, 1, - 1 / drawScene_ratio width height, 1 / drawScene_ratio width height)"
    if "\<not> drawScene_ratio width height > 1"
    using that by (simp add: drawScene_ortho_def Let_def)
  from half two gt le show ?thesis by blast
qed

theorem drawScene_ortho_half_extents_witness:
  "drawScene_ratio 800 400 = 2 \<and> drawScene_ortho 800 400 = (- 2, 2, - 1, 1)
   \<and> drawScene_ratio 300 600 = 1 / 2 \<and> drawScene_ortho 300 600 = (- 1, 1, - 2, 2)"
proof -
  have r: "drawScene_ratio 800 400 = 2" "drawScene_ratio 300 600 = 1 / 2"
    by (simp_all add: drawScene_ratio_def)
  from drawScene_ortho_half_extents [of 800 400] drawScene_ortho_half_extents [of 300 600] r
  show ?thesis by simp
qed

text \<open>
  The shader demo's multipliers are the reciprocals of the same half-extents, scaled by
  \<^verbatim>\<open>ra\<close>.
\<close>

lemma render_mul_reciprocal:
  assumes "0 < width" and "0 < height"
  shows "render_mul width height =
     (case drawScene_ortho width height of
        (x1, x2, y1, y2) \<Rightarrow> (render_ra / x2, render_ra / y2))"
  by (simp add: render_mul_def drawScene_ortho_def drawScene_ratio_def Let_def)

section \<open>Properties of the character callback\<close>

text \<open>
  C10. A character other than \<^verbatim>\<open>'q'\<close> leaves the window, and so its close-requested flag,
  unchanged; the character \<^verbatim>\<open>'q'\<close> sets the flag. This holds for the callback of every
  demo, also the one that prints the character first.
\<close>

theorem charCallBack_only_q_closes:
  "(char \<noteq> 113 \<longrightarrow>
      charCallBack w char = w \<and> snd (charCallBack_printing w char) = w)
   \<and> shouldClose (charCallBack w 113)
   \<and> shouldClose (snd (charCallBack_printing w 113))"
  by (simp add: charCallBack_def charCallBack_printing_def SetShouldClose_def)

theorem charCallBack_only_q_closes_witness:
  "(97 :: 32 word) \<noteq> 113
   \<and> shouldClose (charCallBack \<lparr>shouldClose = False\<rparr> 97) = False
   \<and> shouldClose (snd (charCallBack_printing \<lparr>shouldClose = False\<rparr> 97)) = False
   \<and> shouldClose (charCallBack \<lparr>shouldClose = False\<rparr> 113)"
  using charCallBack_only_q_closes [of 97 "\<lparr>shouldClose = False\<rparr>"]
  by simp

section \<open>Effects of the calls on the context\<close>

lemma issue_effect [simp]:
  "names (issue c gl) = names gl"
  "calls (issue c gl) = calls gl @ [c]"
  "binding (issue c gl) = binding gl"
  "buffers (issue c gl) = buffers gl"
  "textureBinding (issue c gl) = textureBinding gl"
  "textureImages (issue c gl) = textureImages gl"
  "pointers (issue c gl) = pointers gl"
  "enabled (issue c gl) = enabled gl"
  "draws (issue c gl) = draws gl"
  "shaders (issue c gl) = shaders gl"
  "programs (issue c gl) = programs gl"
  by (simp_all add: issue_def)

lemma gl_BindBuffer_effect [simp]:
  "names (gl_BindBuffer t b gl) = names gl"
  "calls (gl_BindBuffer t b gl) = calls gl @ [BindBuffer t b]"
  "binding (gl_BindBuffer t b gl) = (binding gl)(t := b)"
  "buffers (gl_BindBuffer t b gl) = buffers gl"
  "textureBinding (gl_BindBuffer t b gl) = textureBinding gl"
  "textureImages (gl_BindBuffer t b gl) = textureImages gl"
  "pointers (gl_BindBuffer t b gl) = pointers gl"
  "enabled (gl_BindBuffer t b gl) = enabled gl"
  "draws (gl_BindBuffer t b gl) = draws gl"
  "shaders (gl_BindBuffer t b gl) = shaders gl"
  "programs (gl_BindBuffer t b gl) = programs gl"
  by (simp_all add: gl_BindBuffer_def)

lemma gl_BindTexture_effect [simp]:
  "names (gl_BindTexture t gl) = names gl"
  "calls (gl_BindTexture t gl) = calls gl @ [BindTexture t]"
  "binding (gl_BindTexture t gl) = binding gl"
  "buffers (gl_BindTexture t gl) = buffers gl"
  "textureBinding (gl_BindTexture t gl) = t"
  "textureImages (gl_BindTexture t gl) = textureImages gl"
  "pointers (gl_BindTexture t gl) = pointers gl"
  "enabled (gl_BindTexture t gl) = enabled gl"
  "draws (gl_BindTexture t gl) = draws gl"
  "shaders (gl_BindTexture t gl) = shaders gl"
  "programs (gl_BindTexture t gl) = programs gl"
  by (simp_all add: gl_BindTexture_def)

lemma gl_VertexAttribPointer_effect [simp]:
  "names (gl_VertexAttribPointer a n s gl) = names gl"
  "calls (gl_VertexAttribPointer a n s gl) = calls gl @ [VertexAttribPointer a n s]"
  "binding (gl_VertexAttribPointer a n s gl) = binding gl"
  "buffers (gl_VertexAttribPointer a n s gl) = buffers gl"
  "textureBinding (gl_VertexAttribPointer a n s gl) = textureBinding gl"
  "textureImages (gl_VertexAttribPointer a n s gl) = textureImages gl"
  "pointers (gl_VertexAttribPointer a n s gl) = (pointers gl)(a \<mapsto> (binding gl ARRAY_BUFFER, n, s))"
  "enabled (gl_VertexAttribPointer a n s gl) = enabled gl"
  "draws (gl_VertexAttribPointer a n s gl) = draws gl"
  "shaders (gl_VertexAttribPointer a n s gl) = shaders gl"
  "programs (gl_VertexAttribPointer a n s gl) = programs gl"
  by (simp_all add: gl_VertexAttribPointer_def)

lemma gl_EnableVertexAttribArray_effect [simp]:
  "names (gl_EnableVertexAttribArray a gl) = names gl"
  "calls (gl_EnableVertexAttribArray a gl) = calls gl @ [EnableVertexAttribArray a]"
  "binding (gl_EnableVertexAttribArray a gl) = binding gl"
  "buffers (gl_EnableVertexAttribArray a gl) = buffers gl"
  "textureBinding (gl_EnableVertexAttribArray a gl) = textureBinding gl"
  "textureImages (gl_EnableVertexAttribArray a gl) = textureImages gl"
  "pointers (gl_EnableVertexAttribArray a gl) = pointers gl"
  "enabled (gl_EnableVertexAttribArray a gl) = List.insert a (enabled gl)"
  "draws (gl_EnableVertexAttribArray a gl) = draws gl"
  "shaders (gl_EnableVertexAttribArray a gl) = shaders gl"
  "programs (gl_EnableVertexAttribArray a gl) = programs gl"
  by (simp_all add: gl_EnableVertexAttribArray_def)

lemma gl_DisableVertexAttribArray_effect [simp]:
  "names (gl_DisableVertexAttribArray a gl) = names gl"
  "calls (gl_DisableVertexAttribArray a gl) = calls gl @ [DisableVertexAttribArray a]"
  "binding (gl_DisableVertexAttribArray a gl) = binding gl"
  "buffers (gl_DisableVertexAttribArray a gl) = buffers gl"
  "textureBinding (gl_DisableVertexAttribArray a gl) = textureBinding gl"
  "textureImages (gl_DisableVertexAttribArray a gl) = textureImages gl"
  "pointers (gl_DisableVertexAttribArray a gl) = pointers gl"
  "enabled (gl_DisableVertexAttribArray a gl) = removeAll a (enabled gl)"
  "draws (gl_DisableVertexAttribArray a gl) = draws gl"
  "shaders (gl_DisableVertexAttribArray a gl) = shaders gl"
  "programs (gl_DisableVertexAttribArray a gl) = programs gl"
  by (simp_all add: gl_DisableVertexAttribArray_def)

lemma gl_DrawElements_effect [simp]:
  "names (gl_DrawElements m n gl) = names gl"
  "calls (gl_DrawElements m n gl) = calls gl @ [DrawElements m n]"
  "binding (gl_DrawElements m n gl) = binding gl"
  "buffers (gl_DrawElements m n gl) = buffers gl"
  "textureBinding (gl_DrawElements m n gl) = textureBinding gl"
  "textureImages (gl_DrawElements m n gl) = textureImages gl"
  "pointers (gl_DrawElements m n gl) = pointers gl"
  "enabled (gl_DrawElements m n gl) = enabled gl"
  "draws (gl_DrawElements m n gl) = draws gl @
       [\<lparr>drawMode = m, drawCount = n,
         drawElements = buffers gl (binding gl ELEMENT_ARRAY_BUFFER),
         drawArrays = map (\<lambda>a. case pointers gl a of
                                  None \<Rightarrow> None
                                | Some (b, components, stride) \<Rightarrow>
                                    Some (components, stride, buffers gl b))
                        (enabled gl)\<rparr>]"
  "shaders (gl_DrawElements m n gl) = shaders gl"
  "programs (gl_DrawElements m n gl) = programs gl"
  by (simp_all add: gl_DrawElements_def)

lemma gl_BufferData_effect [simp]:
  "names (gl_BufferData t n xs gl) = names gl"
  "calls (gl_BufferData t n xs gl) = calls gl"
  "binding (gl_BufferData t n xs gl) = binding gl"
  "buffers (gl_BufferData t n xs gl) = (buffers gl)(binding gl t \<mapsto> takeData (n div 4) xs)"
  "textureBinding (gl_BufferData t n xs gl) = textureBinding gl"
  "textureImages (gl_BufferData t n xs gl) = textureImages gl"
  "pointers (gl_BufferData t n xs gl) = pointers gl"
  "enabled (gl_BufferData t n xs gl) = enabled gl"
  "draws (gl_BufferData t n xs gl) = draws gl"
  "shaders (gl_BufferData t n xs gl) = shaders gl"
  "programs (gl_BufferData t n xs gl) = programs gl"
  by (simp_all add: gl_BufferData_def)

lemma gl_TexImage2D_effect [simp]:
  "names (gl_TexImage2D f w h px gl) = names gl"
  "calls (gl_TexImage2D f w h px gl) = calls gl"
  "binding (gl_TexImage2D f w h px gl) = binding gl"
  "buffers (gl_TexImage2D f w h px gl) = buffers gl"
  "textureBinding (gl_TexImage2D f w h px gl) = textureBinding gl"
  "textureImages (gl_TexImage2D f w h px gl) = (textureImages gl)(textureBinding gl \<mapsto>
       \<lparr>internalFormat = f, texWidth = w, texHeight = h, texPixels = px\<rparr>)"
  "pointers (gl_TexImage2D f w h px gl) = pointers gl"
  "enabled (gl_TexImage2D f w h px gl) = enabled gl"
  "draws (gl_TexImage2D f w h px gl) = draws gl"
  "shaders (gl_TexImage2D f w h px gl) = shaders gl"
  "programs (gl_TexImage2D f w h px gl) = programs gl"
  by (simp_all add: gl_TexImage2D_def)

lemma genName_effect [simp]:
  "names (snd (genName gl)) = Suc (names gl)"
  "calls (snd (genName gl)) = calls gl"
  "binding (snd (genName gl)) = binding gl"
  "buffers (snd (genName gl)) = buffers gl"
  "textureBinding (snd (genName gl)) = textureBinding gl"
  "textureImages (snd (genName gl)) = textureImages gl"
  "pointers (snd (genName gl)) = pointers gl"
  "enabled (snd (genName gl)) = enabled gl"
  "draws (snd (genName gl)) = draws gl"
  "shaders (snd (genName gl)) = shaders gl"
  "programs (snd (genName gl)) = programs gl"
  by (simp_all add: genName_def)

lemma gl_CreateShader_effect [simp]:
  "names (snd (gl_CreateShader t gl)) = Suc (names gl)"
  "calls (snd (gl_CreateShader t gl)) = calls gl"
  "binding (snd (gl_CreateShader t gl)) = binding gl"
  "buffers (snd (gl_CreateShader t gl)) = buffers gl"
  "textureBinding (snd (gl_CreateShader t gl)) = textureBinding gl"
  "textureImages (snd (gl_CreateShader t gl)) = textureImages gl"
  "pointers (snd (gl_CreateShader t gl)) = pointers gl"
  "enabled (snd (gl_CreateShader t gl)) = enabled gl"
  "draws (snd (gl_CreateShader t gl)) = draws gl"
  "shaders (snd (gl_CreateShader t gl)) = (shaders gl)(of_nat (Suc (names gl)) \<mapsto> (t, []))"
  "programs (snd (gl_CreateShader t gl)) = programs gl"
  by (simp_all add: gl_CreateShader_def split_def genName_def)

lemma gl_ShaderSource_effect [simp]:
  "names (gl_ShaderSource s src gl) = names gl"
  "calls (gl_ShaderSource s src gl) = calls gl"
  "binding (gl_ShaderSource s src gl) = binding gl"
  "buffers (gl_ShaderSource s src gl) = buffers gl"
  "textureBinding (gl_ShaderSource s src gl) = textureBinding gl"
  "textureImages (gl_ShaderSource s src gl) = textureImages gl"
  "pointers (gl_ShaderSource s src gl) = pointers gl"
  "enabled (gl_ShaderSource s src gl) = enabled gl"
  "draws (gl_ShaderSource s src gl) = draws gl"
  "shaders (gl_ShaderSource s src gl) = (shaders gl)(s := map_option (\<lambda>(t, old). (t, src)) (shaders gl s))"
  "programs (gl_ShaderSource s src gl) = programs gl"
  by (simp_all add: gl_ShaderSource_def)

lemma gl_CreateProgram_effect [simp]:
  "names (snd (gl_CreateProgram gl)) = Suc (names gl)"
  "calls (snd (gl_CreateProgram gl)) = calls gl"
  "binding (snd (gl_CreateProgram gl)) = binding gl"
  "buffers (snd (gl_CreateProgram gl)) = buffers gl"
  "textureBinding (snd (gl_CreateProgram gl)) = textureBinding gl"
  "textureImages (snd (gl_CreateProgram gl)) = textureImages gl"
  "pointers (snd (gl_CreateProgram gl)) = pointers gl"
  "enabled (snd (gl_CreateProgram gl)) = enabled gl"
  "draws (snd (gl_CreateProgram gl)) = draws gl"
  "shaders (snd (gl_CreateProgram gl)) = shaders gl"
  "programs (snd (gl_CreateProgram gl)) = (programs gl)(of_nat (Suc (names gl)) \<mapsto> [])"
  by (simp_all add: gl_CreateProgram_def split_def genName_def)

lemma gl_AttachShader_effect [simp]:
  "names (gl_AttachShader p s gl) = names gl"
  "calls (gl_AttachShader p s gl) = calls gl"
  "binding (gl_AttachShader p s gl) = binding gl"
  "buffers (gl_AttachShader p s gl) = buffers gl"
  "textureBinding (gl_AttachShader p s gl) = textureBinding gl"
  "textureImages (gl_AttachShader p s gl) = textureImages gl"
  "pointers (gl_AttachShader p s gl) = pointers gl"
  "enabled (gl_AttachShader p s gl) = enabled gl"
  "draws (gl_AttachShader p s gl) = draws gl"
  "shaders (gl_AttachShader p s gl) = shaders gl"
  "programs (gl_AttachShader p s gl) = (programs gl)(p := map_option (\<lambda>ss. ss @ [s]) (programs gl p))"
  by (simp_all add: gl_AttachShader_def)

lemma genName_name: "fst (genName gl) = of_nat (Suc (names gl))"
  by (simp add: genName_def)

lemma created_name [simp]:
  "fst (gl_CreateShader t gl) = of_nat (Suc (names gl))"
  "fst (gl_CreateProgram gl) = of_nat (Suc (names gl))"
  by (simp_all add: gl_CreateShader_def gl_CreateProgram_def split_def genName_def)

lemmas gl_frame_defs =
  run_def gl_Viewport_def gl_Clear_def gl_MatrixMode_def gl_LoadIdentity_def
  gl_UseProgram_def gl_Uniform1f_def gl_Uniform1i_def gl_ActiveTexture_def gl_LineWidth_def
  gl_TexParameteri_def

lemma inContext_simps [simp]:
  "inContext gl (Inr v) = Inr v"
  "inContext gl (Inl e) = Inl (e, gl)"
  by (simp_all add: inContext_def)

lemma ended_simps [simp]:
  "ended (Inr v) = None"
  "ended (Inl (e, gl)) = Some e"
  by (simp_all add: ended_def)

lemma gl_Ptr_nonempty:
  "xs \<noteq> [] \<Longrightarrow> gl_Ptr (Float32s xs) = Inr (Float32s xs)"
  "ys \<noteq> [] \<Longrightarrow> gl_Ptr (Uint32s ys) = Inr (Uint32s ys)"
  by (simp_all add: gl_Ptr_def)

lemma gl_Ptr_data [simp]:
  "gl_Ptr (Float32s gVertexBufferData) = Inr (Float32s gVertexBufferData)"
  "gl_Ptr (Uint32s gElementBufferData) = Inr (Uint32s gElementBufferData)"
  "gl_Ptr (Float32s gVertexBufferData1) = Inr (Float32s gVertexBufferData1)"
  "gl_Ptr (Uint32s gElementBufferData1) = Inr (Uint32s gElementBufferData1)"
  "gl_Ptr (Float32s gVertexBufferData2) = Inr (Float32s gVertexBufferData2)"
  "gl_Ptr (Uint32s gElementBufferData2) = Inr (Uint32s gElementBufferData2)"
  "gl_Ptr (Float32s gColorBufferData2) = Inr (Float32s gColorBufferData2)"
  by (simp_all add: gl_Ptr_def gVertexBufferData_def gElementBufferData_def
      gVertexBufferData1_def gElementBufferData1_def gVertexBufferData2_def
      gElementBufferData2_def gColorBufferData2_def)

lemma andThen_simps [simp]:
  "andThen (Inr v) f = f v"
  "andThen (Inl e) f = Inl e"
  by (simp_all add: andThen_def)

lemma andThen_if:
  "andThen (if c then Inr v else Inl e) f = (if c then f v else Inl e)"
  by (simp add: andThen_def)

section \<open>The row loop of texture loading\<close>

lemma NewRGBA_tight:
  "image_NewRGBA r = Inr rgba \<Longrightarrow> Stride rgba = fst (Size (Rect rgba)) * 4 \<and> Rect rgba = r
     \<and> Pix rgba = (\<lambda>p. (0, 0, 0, 0))"
  by (auto simp: image_NewRGBA_def Size_def Dx_def split: if_splits)

lemma draw_Draw_Rect [simp]:
  "Rect (draw_Draw dst r src sp) = Rect dst"
  "Stride (draw_Draw dst r src sp) = Stride dst"
  by (simp_all add: draw_Draw_def Let_def)

lemma hello_flip_Rect [simp]: "Rect (hello_flip h height width img rgba) = Rect rgba"
proof (induction h height width img rgba rule: hello_flip.induct)
  case (1 h height width img rgba)
  show ?case
  proof (cases "h < height")
    case True
    from 1 [OF True] show ?thesis by (subst hello_flip.simps) (simp add: True)
  next
    case False
    then show ?thesis by (subst hello_flip.simps) simp
  qed
qed

lemma draw_row:
  assumes "Rect rgba = \<lparr>rMin = (0, 0), rMax = (w, H)\<rparr>"
    and "Bounds img = \<lparr>rMin = (0, 0), rMax = (w, H)\<rparr>"
    and "0 \<le> k" and "k < H" and "0 \<le> w"
  shows "draw_Draw rgba (image_Rect 0 (H - 1 - k) w (H - k)) img (0, k) =
     rgba\<lparr>Pix := (\<lambda>p. if 0 \<le> fst p \<and> fst p < w \<and> snd p = H - 1 - k
                        then At img (fst p, k) else Pix rgba p)\<rparr>"
proof (cases "w = 0")
  case True
  have "(\<lambda>p. if 0 \<le> fst p \<and> fst p < w \<and> snd p = H - 1 - k
             then At img (fst p, k) else Pix rgba p) = Pix rgba"
    using True by (auto simp: fun_eq_iff)
  with True assms show ?thesis
    by (simp add: draw_Draw_def image_Rect_def Intersect_def Add_def Empty_def ZR_def Let_def)
next
  case False
  with assms have "0 < w" by simp
  with assms show ?thesis
    by (auto simp: draw_Draw_def image_Rect_def Intersect_def Add_def Empty_def ZR_def In_def
        Let_def fun_eq_iff)
qed

lemma hello_flip_Pix:
  assumes "Rect rgba = \<lparr>rMin = (0, 0), rMax = (w, H)\<rparr>"
    and "Bounds img = \<lparr>rMin = (0, 0), rMax = (w, H)\<rparr>"
    and "0 \<le> k" and "0 \<le> w"
  shows "Rect (hello_flip k H w img rgba) = Rect rgba
     \<and> Pix (hello_flip k H w img rgba) (x, y) =
         (if 0 \<le> x \<and> x < w \<and> 0 \<le> y \<and> y < H - k then At img (x, H - 1 - y)
          else Pix rgba (x, y))"
  using assms
proof (induction k H w img rgba rule: hello_flip.induct)
  case (1 h height width img rgba)
  show ?case
  proof (cases "h < height")
    case False
    then have "hello_flip h height width img rgba = rgba"
      by (subst hello_flip.simps) simp
    with False show ?thesis by auto
  next
    case True
    let ?rgba = "draw_Draw rgba (image_Rect 0 (height - 1 - h) width (height - h)) img (0, h)"
    have step: "?rgba = rgba\<lparr>Pix := (\<lambda>p. if 0 \<le> fst p \<and> fst p < width \<and> snd p = height - 1 - h
                        then At img (fst p, h) else Pix rgba p)\<rparr>"
      using "1.prems" True by (intro draw_row) simp_all
    have "Rect ?rgba = \<lparr>rMin = (0, 0), rMax = (width, height)\<rparr>"
      using "1.prems"(1) by (simp add: step)
    from "1.IH" [OF True this "1.prems"(2)] "1.prems"(3,4)
    have IH: "Rect (hello_flip (h + 1) height width img ?rgba) = Rect ?rgba
       \<and> Pix (hello_flip (h + 1) height width img ?rgba) (x, y) =
           (if 0 \<le> x \<and> x < width \<and> 0 \<le> y \<and> y < height - (h + 1)
            then At img (x, height - 1 - y) else Pix ?rgba (x, y))"
      by simp
    have unfold: "hello_flip h height width img rgba = hello_flip (h + 1) height width img ?rgba"
      using True by (subst hello_flip.simps) simp
    show ?thesis
      unfolding unfold using IH True "1.prems"(3) by (auto simp: step)
  qed
qed

lemmas gl_texture_defs =
  gl_GenTextures_def run_def gl_TexParameteri_def split_def genName_name

lemma hello_makeTexture_flips:
  assumes "disk filename = Decodes img"
    and "Bounds img = \<lparr>rMin = (0, 0), rMax = (width, height)\<rparr>"
    and "0 < width" and "0 \<le> height" and "4 * width * height \<le> 2 ^ 63 - 1"
    and "0 \<le> h" and "h < height"
  shows "uploadedRow (hello_makeTexture disk filename gl) (height - 1 - h) =
     Some (map (\<lambda>x. At img (x, h)) [0 .. width - 1])"
proof -
  let ?rgba = "\<lparr>Pix = (\<lambda>p. (0, 0, 0, 0)), Stride = 4 * width,
                Rect = \<lparr>rMin = (0, 0), rMax = (width, height)\<rparr>\<rparr>"
  have new: "image_NewRGBA \<lparr>rMin = (0, 0), rMax = (width, height)\<rparr> = Inr ?rgba"
    using assms(3-5) by (simp add: image_NewRGBA_def Dx_def Dy_def)
  have rect: "Rect ?rgba = \<lparr>rMin = (0, 0), rMax = (width, height)\<rparr>"
    by simp
  from assms(3) have w: "0 \<le> width" by simp
  note flip = hello_flip_Pix [OF rect assms(2) order_refl w]
  from assms(3,6,7) have area: "4 * width * height \<noteq> 0" by simp
  have row: "bufferRow (hello_flip 0 height width img ?rgba) (height - 1 - h) =
      map (\<lambda>x. At img (x, h)) [0 .. width - 1]"
    using assms(6,7) by (simp add: bufferRow_def flip)
  show ?thesis
    using assms(2) row area
    by (simp add: hello_makeTexture_def assms(1) new Size_def uploadedRow_def
        gl_texture_defs Let_def gl_Ptr_Pix_def Dx_def Dy_def flip)
qed

lemma twoRows_upload:
  "uploadedRow (testing3_makeTexture disk_twoRows ''hello1.png'' gl_Init) 0 = Some [(1, 2, 3, 4)]
   \<and> uploadedRow (testing3_makeTexture disk_twoRows ''hello1.png'' gl_Init) 1 = Some [(5, 6, 7, 8)]
   \<and> At twoRows (0, 0) = (1, 2, 3, 4) \<and> At twoRows (0, 1) = (5, 6, 7, 8)"
  by (simp add: testing3_makeTexture_def disk_twoRows_def twoRows_def image_NewRGBA_def
      image_Rect_def Dx_def Dy_def Size_def draw_Draw_def Intersect_def Add_def
      Empty_def In_def Let_def uploadedRow_def bufferRow_def gl_texture_defs gl_Init_def
      gl_Ptr_Pix_def)

section \<open>The calls of a frame\<close>

lemma hello_frame:
  "frame (hello_render (width, height) r) gl =
     [Viewport 0 0 (of_int width) (of_int height), Clear,
      MatrixMode PROJECTION, LoadIdentity, MatrixMode MODELVIEW, LoadIdentity,
      UseProgram (program r),
      Uniform1f (hello_tUniforms.fadeFactor (uniforms r)) (fadeFactor r),
      ActiveTexture 0, BindTexture (fst (textures r)),
      Uniform1i (fst (hello_tUniforms.textures (uniforms r))) 0,
      ActiveTexture 1, BindTexture (snd (textures r)),
      Uniform1i (snd (hello_tUniforms.textures (uniforms r))) 1,
      BindBuffer ARRAY_BUFFER (vertexBuffer r),
      VertexAttribPointer (hello_tAttributes.position (attributes r)) 2 8,
      EnableVertexAttribArray (hello_tAttributes.position (attributes r)),
      BindBuffer ELEMENT_ARRAY_BUFFER (elementBuffer r),
      DrawElements TRIANGLE_STRIP 4,
      DisableVertexAttribArray (hello_tAttributes.position (attributes r))]"
  by (simp add: frame_def hello_render_def gl_frame_defs)

lemma testing3_frame:
  "frame (testing3_render (width, height) d r) gl =
     [Viewport 0 0 (of_int width) (of_int height), Clear,
      UseProgram (program1 r),
      BindBuffer ARRAY_BUFFER (vertexBuffer1 r),
      VertexAttribPointer (position (attributes1 r)) 2 8,
      EnableVertexAttribArray (position (attributes1 r)),
      BindBuffer ELEMENT_ARRAY_BUFFER (elementBuffer1 r),
      LineWidth 1,
      DrawElements LINES 4,
      DisableVertexAttribArray (position (attributes1 r)),
      UseProgram (program2 r),
      Uniform1f (xmul (uniforms2 r)) (fst (render_mul width height)),
      Uniform1f (ymul (uniforms2 r)) (snd (render_mul width height)),
      Uniform1f (sin_uniform (uniforms2 r)) (sin d),
      Uniform1f (cos_uniform (uniforms2 r)) (cos d),
      BindBuffer ARRAY_BUFFER (vertexBuffer2 r),
      VertexAttribPointer (position (attributes2 r)) 2 8,
      EnableVertexAttribArray (position (attributes2 r)),
      BindBuffer ELEMENT_ARRAY_BUFFER (elementBuffer2 r),
      EnableVertexAttribArray (color (attributes2 r)),
      BindBuffer ARRAY_BUFFER (colorBuffer2 r),
      VertexAttribPointer (color (attributes2 r)) 3 0,
      DrawElements TRIANGLES 3,
      BindBuffer ARRAY_BUFFER (vertexBuffer3 r),
      VertexAttribPointer (position (attributes2 r)) 2 8,
      BindBuffer ELEMENT_ARRAY_BUFFER (elementBuffer3 r),
      BindBuffer ARRAY_BUFFER (colorBuffer3 r),
      VertexAttribPointer (color (attributes2 r)) 3 0,
      LineWidth 5,
      DrawElements LINE_LOOP (len3 r),
      DisableVertexAttribArray (color (attributes2 r)),
      DisableVertexAttribArray (position (attributes2 r))]"
  by (simp add: frame_def testing3_render_def gl_frame_defs split_def Let_def)

lemmas pass_defs = passCounts_def paired_def passes_def enables_def disables_def
  isEnable_def isDisable_def isDraw_def

lemma hello_passCounts: "passCounts (frame (hello_render w r) gl) = [(1, 1)]"
  by (cases w) (simp add: hello_frame pass_defs)

lemma testing3_passCounts:
  "passCounts (frame (testing3_render w d r) gl) = [(1, 1), (2, 0), (0, 2)]"
  by (cases w) (simp add: testing3_frame pass_defs)

lemma hello_enabled:
  "set (enabled (hello_render w r gl)) = set (enabled gl) - {hello_tAttributes.position (attributes r)}"
  by (cases w) (simp add: hello_render_def gl_frame_defs)

lemma testing3_enabled:
  "set (enabled (testing3_render w d r gl)) =
     set (enabled gl) - {position (attributes1 r), position (attributes2 r), color (attributes2 r)}"
  by (cases w) (auto simp add: testing3_render_def gl_frame_defs split_def Let_def)

section \<open>Object creation\<close>

lemma takeData_all [simp]:
  "takeData (4 * length xs div 4) (Float32s xs) = Float32s xs"
  "takeData (4 * length ys div 4) (Uint32s ys) = Uint32s ys"
  by simp_all

lemma makeBuffer_name [simp]: "fst (makeBuffer t xs n gl) = of_nat (Suc (names gl))"
  by (simp add: makeBuffer_def gl_GenBuffers_def split_def genName_name)

lemma makeBuffer_effect [simp]:
  "names (snd (makeBuffer t xs n gl)) = Suc (names gl)"
  "calls (snd (makeBuffer t xs n gl)) = calls gl @ [BindBuffer t (of_nat (Suc (names gl)))]"
  "binding (snd (makeBuffer t xs n gl)) = (binding gl)(t := of_nat (Suc (names gl)))"
  "buffers (snd (makeBuffer t xs n gl)) =
     (buffers gl)(of_nat (Suc (names gl)) \<mapsto> takeData (n div 4) xs)"
  "textureBinding (snd (makeBuffer t xs n gl)) = textureBinding gl"
  "textureImages (snd (makeBuffer t xs n gl)) = textureImages gl"
  "pointers (snd (makeBuffer t xs n gl)) = pointers gl"
  "enabled (snd (makeBuffer t xs n gl)) = enabled gl"
  "draws (snd (makeBuffer t xs n gl)) = draws gl"
  "shaders (snd (makeBuffer t xs n gl)) = shaders gl"
  "programs (snd (makeBuffer t xs n gl)) = programs gl"
  by (simp_all add: makeBuffer_def gl_GenBuffers_def split_def genName_name)

lemma infoLog_written:
  "writeInfoLog (INFO_LOG_LENGTH text) text (CHR 0x00 # replicate (INFO_LOG_LENGTH text) (CHR 0x00)) =
     text @ (if text = [] then [CHR 0x00] else [CHR 0x00, CHR 0x00])"
  by (simp add: writeInfoLog_def INFO_LOG_LENGTH_def Let_def)

lemma gl_Str_cases:
  "gl_Str str =
     (if str = [] \<or> last str \<noteq> CHR 0x00
      then Inl (Panic (''str argument missing null terminator: '' @ str))
      else Inr str)"
  by (simp add: gl_Str_def)

text \<open>
  The three ways in which \<^verbatim>\<open>makeShader\<close> returns, and the context that it leaves; likewise
  for \<^verbatim>\<open>makeProgram\<close>.
\<close>

lemma makeShader_cases:
  "makeShader drv shaderType source gl =
     (if source = [] \<or> last source \<noteq> CHR 0x00
      then Inl (Panic (''str argument missing null terminator: '' @ source),
                snd (gl_CreateShader shaderType gl))
      else if compileStatus drv shaderType source
      then Inr (of_nat (Suc (names gl)),
                gl_ShaderSource (of_nat (Suc (names gl))) source
                  (snd (gl_CreateShader shaderType gl)))
      else Inl (compileFailure drv shaderType source,
                gl_ShaderSource (of_nat (Suc (names gl))) source
                  (snd (gl_CreateShader shaderType gl))))"
  by (simp add: makeShader_def gl_Str_cases split_def Let_def infoLog_written
      compileFailure_def gl_COMPILE_STATUS_def gl_ShaderInfoLog_def)

lemma makeProgram_cases:
  "makeProgram drv vsh fsh gl =
     (if linkStatus drv [shaders gl vsh, shaders gl fsh]
      then Inr (of_nat (Suc (names gl)),
                gl_AttachShader (of_nat (Suc (names gl))) fsh
                  (gl_AttachShader (of_nat (Suc (names gl))) vsh (snd (gl_CreateProgram gl))))
      else Inl (linkFailure drv [shaders gl vsh, shaders gl fsh],
                gl_AttachShader (of_nat (Suc (names gl))) fsh
                  (gl_AttachShader (of_nat (Suc (names gl))) vsh (snd (gl_CreateProgram gl)))))"
  by (simp add: makeProgram_def split_def Let_def infoLog_written linkFailure_def
      gl_LINK_STATUS_def gl_ProgramInfoLog_def attached_def)

lemma sources_terminated:
  "v_glsl \<noteq> [] \<and> last v_glsl = CHR 0x00"
  "f_glsl \<noteq> [] \<and> last f_glsl = CHR 0x00"
  "vector_glsl1 \<noteq> [] \<and> last vector_glsl1 = CHR 0x00"
  "fragment_glsl1 \<noteq> [] \<and> last fragment_glsl1 = CHR 0x00"
  "vector_glsl2 \<noteq> [] \<and> last vector_glsl2 = CHR 0x00"
  "fragment_glsl2 \<noteq> [] \<and> last fragment_glsl2 = CHR 0x00"
  by (simp_all add: v_glsl_def f_glsl_def vector_glsl1_def fragment_glsl1_def vector_glsl2_def
      fragment_glsl2_def)

section \<open>The colour circle\<close>

text \<open>
  The loop leaves three floats per point in the colour slice, two in the vertex slice and
  the indices \<open>0, 1, \<dots>\<close> in the element slice, and counts the points in \<^verbatim>\<open>len3\<close>. It makes
  at most 160 rounds, since \<open>pi < 4\<close>.
\<close>

lemma circle_shape:
  assumes "testing3_circle i (cs, vs, es, l) = (cs', vs', es', l')"
    and "length cs = 3 * k" and "length vs = 2 * k"
    and "es = map of_nat [0 ..< k]" and "l = of_nat k"
  shows "\<exists>k'. length cs' = 3 * k' \<and> length vs' = 2 * k'
           \<and> es' = map of_nat [0 ..< k'] \<and> l' = of_nat k'
           \<and> int k' \<le> int k + max 0 \<lceil>(2 * pi - i) * 20\<rceil> \<and> k \<le> k'"
  using assms
proof (induction i "(cs, vs, es, l)" arbitrary: cs vs es l k rule: testing3_circle.induct)
  case (1 i cs vs es l)
  show ?case
  proof (cases "i < 2 * pi")
    case False
    with "1.prems"(1) have "cs' = cs" "vs' = vs" "es' = es" "l' = l"
      by (simp_all add: testing3_circle.simps)
    with "1.prems"(2-5) show ?thesis by (intro exI [of _ k]) simp
  next
    case True
    let ?cs = "cs @ [fst (hsb2rgb (i / (2 * pi)) 1 1), fst (snd (hsb2rgb (i / (2 * pi)) 1 1)),
                     snd (snd (hsb2rgb (i / (2 * pi)) 1 1))]"
    let ?vs = "vs @ [sin i, cos i]"
    from True "1.prems"(1)
    have run: "testing3_circle (i + 5 / 100) (?cs, ?vs, es @ [l], l + 1) = (cs', vs', es', l')"
      by (simp add: testing3_circle.simps [of i])
    have "\<exists>k'. length cs' = 3 * k' \<and> length vs' = 2 * k'
           \<and> es' = map of_nat [0 ..< k'] \<and> l' = of_nat k'
           \<and> int k' \<le> int (Suc k) + max 0 \<lceil>(2 * pi - (i + 5 / 100)) * 20\<rceil>
           \<and> Suc k \<le> k'"
      using "1.prems"(2-5) by (intro "1.hyps" [OF True run]) simp_all
    then obtain k' where k': "length cs' = 3 * k'" "length vs' = 2 * k'"
      "es' = map of_nat [0 ..< k']" "l' = of_nat k'"
      "int k' \<le> int (Suc k) + max 0 \<lceil>(2 * pi - (i + 5 / 100)) * 20\<rceil>"
      "Suc k \<le> k'"
      by blast
    have "(2 * pi - (i + 5 / 100)) * 20 = (2 * pi - i) * 20 - 1" by (simp add: algebra_simps)
    then have c: "\<lceil>(2 * pi - (i + 5 / 100)) * 20\<rceil> = \<lceil>(2 * pi - i) * 20\<rceil> - 1"
      by (simp only: ceiling_diff_one)
    from True have "0 < (2 * pi - i) * 20" by simp
    then have "0 < \<lceil>(2 * pi - i) * 20\<rceil>" by simp
    with c k'(5) have "int k' \<le> int k + max 0 \<lceil>(2 * pi - i) * 20\<rceil>" by simp
    moreover from k'(6) have "k \<le> k'" by simp
    ultimately show ?thesis using k'(1-4) by blast
  qed
qed

lemma circle_result:
  obtains n cs vs where "testing3_circle 0 ([], [], [], 0) = (cs, vs, map of_nat [0 ..< n], of_nat n)"
    and "length cs = 3 * n" and "length vs = 2 * n" and "n \<le> 160" and "1 \<le> n"
proof -
  obtain cs vs es l where res: "testing3_circle 0 ([], [], [], 0) = (cs, vs, es, l)"
    by (cases "testing3_circle 0 ([], [], [], 0)") auto
  from circle_shape [OF res, of 0]
  obtain n where n: "length cs = 3 * n" "length vs = 2 * n" "es = map of_nat [0 ..< n]"
    "l = of_nat n" "int n \<le> int 0 + max 0 \<lceil>(2 * pi - 0) * 20\<rceil>"
    by auto
  have "(2 * pi - 0) * 20 \<le> real_of_int 160" using pi_less_4 by simp
  then have "\<lceil>(2 * pi - 0) * 20\<rceil> \<le> (160 :: int)" by (rule ceiling_le)
  with n(5) have small: "n \<le> 160" by linarith
  let ?c = "[fst (hsb2rgb (0 / (2 * pi)) 1 1), fst (snd (hsb2rgb (0 / (2 * pi)) 1 1)),
             snd (snd (hsb2rgb (0 / (2 * pi)) 1 1))]"
  have "testing3_circle 0 ([], [], [], 0) =
      testing3_circle (0 + 5 / 100) ([] @ ?c, [] @ [sin 0, cos 0], [] @ [0], 0 + 1)"
    by (subst testing3_circle.simps) simp
  with res have "testing3_circle (0 + 5 / 100) ([] @ ?c, [] @ [sin 0, cos 0], [] @ [0], 0 + 1) =
      (cs, vs, es, l)"
    by simp
  from circle_shape [OF this, of 1]
  obtain m where m: "length cs = 3 * m" "1 \<le> m" by auto
  from m(1) n(1) have "m = n" by simp
  with m(2) have "1 \<le> n" by simp
  with res n(1-4) small show ?thesis by (intro that [of cs vs n]) simp_all
qed

section \<open>Properties of texture loading\<close>

text \<open>
  C3. The textured demo's \<^verbatim>\<open>makeTexture\<close> flips the image (lemma \<open>hello_makeTexture_flips\<close>
  above). The shader demo's \<^verbatim>\<open>makeTexture\<close> does not: for the image of two rows, row 0 of
  the uploaded buffer is row 0 of the image and row 1 is row 1, where the textured demo
  uploads them exchanged.
\<close>

theorem testing3_makeTexture_copies_unflipped:
  "uploadedRow (testing3_makeTexture disk_twoRows ''hello1.png'' gl_Init) 0 = Some [At twoRows (0, 0)]
   \<and> uploadedRow (testing3_makeTexture disk_twoRows ''hello1.png'' gl_Init) 1 = Some [At twoRows (0, 1)]
   \<and> At twoRows (0, 0) \<noteq> At twoRows (0, 1)
   \<and> uploadedRow (hello_makeTexture disk_twoRows ''hello1.png'' gl_Init) 0 = Some [At twoRows (0, 1)]
   \<and> uploadedRow (hello_makeTexture disk_twoRows ''hello1.png'' gl_Init) 1 = Some [At twoRows (0, 0)]"
proof -
  have d: "disk_twoRows ''hello1.png'' = Decodes twoRows" by (simp add: disk_twoRows_def)
  have b: "Bounds twoRows = \<lparr>rMin = (0, 0), rMax = (1, 2)\<rparr>"
    by (simp add: twoRows_def image_Rect_def)
  have "uploadedRow (hello_makeTexture disk_twoRows ''hello1.png'' gl_Init) (2 - 1 - 1) =
      Some (map (\<lambda>x. At twoRows (x, 1)) [0 .. 1 - 1])"
    by (rule hello_makeTexture_flips [where disk = disk_twoRows and filename = "''hello1.png''", OF d b])
      simp_all
  moreover have "uploadedRow (hello_makeTexture disk_twoRows ''hello1.png'' gl_Init) (2 - 1 - 0) =
      Some (map (\<lambda>x. At twoRows (x, 0)) [0 .. 1 - 1])"
    by (rule hello_makeTexture_flips [where disk = disk_twoRows and filename = "''hello1.png''", OF d b])
      simp_all
  moreover have "At twoRows (0, 0) \<noteq> At twoRows (0, 1)" by (simp add: twoRows_def)
  ultimately show ?thesis using twoRows_upload by simp
qed

text \<open>
  C4, as stated, fails: the image of width 4 whose stride is 20 is loaded by both demos,
  which end with no error and upload its rows.
\<close>

theorem stride20_texture_loads:
  "ImgStride stride20 \<noteq> fst (Size (Bounds stride20)) * 4
   \<and> ended (hello_makeTexture disk_stride20 ''hello1.png'' gl_Init) = None
   \<and> ended (testing3_makeTexture disk_stride20 ''hello1.png'' gl_Init) = None
   \<and> uploadedRow (hello_makeTexture disk_stride20 ''hello1.png'' gl_Init) 0 =
       Some (replicate 4 (255, 255, 255, 255))"
proof -
  have d: "disk_stride20 ''hello1.png'' = Decodes stride20" by (simp add: disk_stride20_def)
  have b: "Bounds stride20 = \<lparr>rMin = (0, 0), rMax = (4, 3)\<rparr>"
    by (simp add: stride20_def image_Rect_def)
  have new: "image_NewRGBA \<lparr>rMin = (0, 0), rMax = (4, 3)\<rparr> =
      Inr \<lparr>Pix = (\<lambda>p. (0, 0, 0, 0)), Stride = 16, Rect = \<lparr>rMin = (0, 0), rMax = (4, 3)\<rparr>\<rparr>"
    by (simp add: image_NewRGBA_def Dx_def Dy_def)
  have flip: "Rect (hello_flip 0 3 4 stride20
      \<lparr>Pix = (\<lambda>p. (0, 0, 0, 0)), Stride = 16, Rect = \<lparr>rMin = (0, 0), rMax = (4, 3)\<rparr>\<rparr>) =
      \<lparr>rMin = (0, 0), rMax = (4, 3)\<rparr>"
    by (simp add: hello_flip_Pix [OF _ b])
  have "uploadedRow (hello_makeTexture disk_stride20 ''hello1.png'' gl_Init) (3 - 1 - 2) =
      Some (map (\<lambda>x. At stride20 (x, 2)) [0 .. 4 - 1])"
    by (rule hello_makeTexture_flips [where disk = disk_stride20 and filename = "''hello1.png''", OF d b])
      simp_all
  moreover have "[0 .. 4 - 1] = [0, 1, 2, 3 :: int]" by (simp add: upto.simps)
  ultimately have row: "uploadedRow (hello_makeTexture disk_stride20 ''hello1.png'' gl_Init) 0 =
      Some (replicate 4 (255, 255, 255, 255))"
    by (simp add: stride20_def image_Rect_def In_def numeral_eq_Suc)
  have "ImgStride stride20 \<noteq> fst (Size (Bounds stride20)) * 4"
    by (simp add: stride20_def image_Rect_def Size_def)
  moreover have "ended (hello_makeTexture disk_stride20 ''hello1.png'' gl_Init) = None"
    by (simp add: hello_makeTexture_def d b new Size_def Let_def split_def gl_Ptr_Pix_def
        flip Dx_def Dy_def)
  moreover have "ended (testing3_makeTexture disk_stride20 ''hello1.png'' gl_Init) = None"
    by (simp add: testing3_makeTexture_def d b new Size_def Let_def split_def gl_Ptr_Pix_def
        draw_Draw_def Dx_def Dy_def)
  ultimately show ?thesis using row by simp
qed

text \<open>
  C4, amended. \<^verbatim>\<open>makeTexture\<close> compares the stride of the RGBA buffer that it has just
  allocated with four times the width of that buffer. \<^verbatim>\<open>image.NewRGBA\<close> makes the two
  equal, so whatever image a file decodes to, with whatever stride of its own, texture
  loading does not end with the stride error.
\<close>

theorem makeTexture_stride_check_passes:
  assumes "disk filename = Decodes img"
  shows "ended (hello_makeTexture disk filename gl) \<noteq> Some (Fatal ''unsupported stride'')
     \<and> ended (testing3_makeTexture disk filename gl) \<noteq> Some (Fatal ''unsupported stride'')
     \<and> (\<forall>rgba. image_NewRGBA (Bounds img) = Inr rgba \<longrightarrow>
           Stride rgba = fst (Size (Rect rgba)) * 4)"
proof (cases "image_NewRGBA (Bounds img)")
  case (Inl p)
  then have "p = Panic ''image: NewRGBA Rectangle has huge or negative dimensions''"
    by (simp add: image_NewRGBA_def split: if_splits)
  with Inl show ?thesis
    by (simp add: hello_makeTexture_def testing3_makeTexture_def assms)
next
  case (Inr rgba)
  from NewRGBA_tight [OF Inr] have tight: "Stride rgba = fst (Size (Rect rgba)) * 4" by simp
  have "ended (hello_makeTexture disk filename gl) \<noteq> Some (Fatal ''unsupported stride'')"
    using Inr tight
    by (simp add: hello_makeTexture_def assms Let_def split_def gl_Ptr_Pix_def)
  moreover have "ended (testing3_makeTexture disk filename gl)
      \<noteq> Some (Fatal ''unsupported stride'')"
    using Inr tight
    by (simp add: testing3_makeTexture_def assms Let_def split_def gl_Ptr_Pix_def)
  ultimately show ?thesis using Inr tight by simp
qed

theorem makeTexture_stride_check_passes_witness:
  "disk_stride20 ''hello1.png'' = Decodes stride20
   \<and> ImgStride stride20 = 20
   \<and> image_NewRGBA (Bounds stride20) =
       Inr \<lparr>Pix = (\<lambda>p. (0, 0, 0, 0)), Stride = 16, Rect = \<lparr>rMin = (0, 0), rMax = (4, 3)\<rparr>\<rparr>
   \<and> ended (hello_makeTexture disk_stride20 ''hello1.png'' gl_Init)
       \<noteq> Some (Fatal ''unsupported stride'')
   \<and> ended (testing3_makeTexture disk_stride20 ''hello1.png'' gl_Init)
       \<noteq> Some (Fatal ''unsupported stride'')"
proof -
  have d: "disk_stride20 ''hello1.png'' = Decodes stride20" by (simp add: disk_stride20_def)
  have new: "image_NewRGBA (Bounds stride20) =
      Inr \<lparr>Pix = (\<lambda>p. (0, 0, 0, 0)), Stride = 16, Rect = \<lparr>rMin = (0, 0), rMax = (4, 3)\<rparr>\<rparr>"
    by (simp add: stride20_def image_Rect_def image_NewRGBA_def Dx_def Dy_def)
  from makeTexture_stride_check_passes [of disk_stride20 "''hello1.png''" stride20 gl_Init, OF d]
    new d show ?thesis
    by (simp add: stride20_def)
qed

section \<open>Properties of the draw passes\<close>

text \<open>
  C2, as stated, fails for the shader demo: the second pass of its frame enables two
  attributes and disables none.
\<close>

theorem testing3_second_pass_unpaired:
  "passCounts (frame (testing3_render (640, 480) 0 testing3_sample) gl_Init) =
     [(1, 1), (2, 0), (0, 2)]
   \<and> \<not> paired (frame (testing3_render (640, 480) 0 testing3_sample) gl_Init)"
  by (simp add: testing3_frame pass_defs)

text \<open>
  C2, amended. The single pass of the textured demo and the first pass of the shader demo
  enable and disable one attribute each. The second and third pass of the shader demo
  use the same program: the second enables its two attributes and disables none, the
  third enables none and disables both. In every frame of either demo the number of
  enable calls equals the number of disable calls, and after the frame none of the
  attributes that the frame uses is enabled.
\<close>

theorem attribute_pairing_per_frame:
  "passCounts (frame (hello_render w r) gl) = [(1, 1)]
   \<and> paired (frame (hello_render w r) gl)
   \<and> passCounts (frame (testing3_render w d r3) gl) = [(1, 1), (2, 0), (0, 2)]
   \<and> enables (frame (testing3_render w d r3) gl) = disables (frame (testing3_render w d r3) gl)
   \<and> set (enabled (hello_render w r gl)) =
       set (enabled gl) - {hello_tAttributes.position (attributes r)}
   \<and> set (enabled (testing3_render w d r3 gl)) =
       set (enabled gl) - {position (attributes1 r3), position (attributes2 r3),
                           color (attributes2 r3)}"
proof -
  have "paired (frame (hello_render w r) gl)"
    by (cases w) (simp add: hello_frame pass_defs)
  moreover have "enables (frame (testing3_render w d r3) gl) =
      disables (frame (testing3_render w d r3) gl)"
    by (cases w) (simp add: testing3_frame pass_defs)
  ultimately show ?thesis
    by (simp add: hello_passCounts testing3_passCounts hello_enabled testing3_enabled)
qed

section \<open>Properties of the indexed draws\<close>

lemma vertexCount_pairs:
  "length vs = 2 * n \<Longrightarrow> vertexCount (2, 8, Some (Float32s vs)) = n"
  by (cases n) (simp_all add: vertexCount_def)

lemma vertexCount_triples:
  "length cs = 3 * n \<Longrightarrow> vertexCount (3, 0, Some (Float32s cs)) = n"
  by (cases n) (simp_all add: vertexCount_def)

lemma indices_below: "list_all (\<lambda>i. unat i < n) (map of_nat [0 ..< n] :: uint32 list)"
proof -
  have "unat (of_nat i :: uint32) < n" if "i < n" for i
  proof -
    have "unat (of_nat i :: uint32) \<le> i" by (simp add: unat_of_nat)
    with that show ?thesis by simp
  qed
  then show ?thesis by (simp add: list_all_iff)
qed

lemma count_small:
  assumes "n \<le> 160"
  shows "sint (of_nat n :: int32) = int n"
proof -
  from assms have "int n < 2 ^ 31" by simp
  then have "signed_take_bit 31 (int n) = int n"
    by (intro signed_take_bit_int_eq_self) simp_all
  then show ?thesis by (simp add: signed_of_nat)
qed

lemma testing3_render_inBounds:
  assumes "enabled gl = []"
    and "buffers gl (vertexBuffer1 r) = Some (Float32s gVertexBufferData1)"
    and "buffers gl (elementBuffer1 r) = Some (Uint32s gElementBufferData1)"
    and "buffers gl (vertexBuffer2 r) = Some (Float32s gVertexBufferData2)"
    and "buffers gl (elementBuffer2 r) = Some (Uint32s gElementBufferData2)"
    and "buffers gl (colorBuffer2 r) = Some (Float32s gColorBufferData2)"
    and "buffers gl (vertexBuffer3 r) = Some (Float32s vs)" and "length vs = 2 * n"
    and "buffers gl (colorBuffer3 r) = Some (Float32s cs)" and "length cs = 3 * n"
    and "buffers gl (elementBuffer3 r) = Some (Uint32s (map of_nat [0 ..< n]))"
    and "len3 r = of_nat n" and "n \<le> 160"
  shows "\<exists>d1 d2 d3. draws (testing3_render w d r gl) = draws gl @ [d1, d2, d3]
            \<and> inBounds d1 \<and> inBounds d2 \<and> inBounds d3"
    and "enabled (testing3_render w d r gl) = []"
    and "buffers (testing3_render w d r gl) = buffers gl"
proof -
  have v1: "vertexCount (2, 8, Some (Float32s gVertexBufferData1)) = 4"
    by (rule vertexCount_pairs) (simp add: gVertexBufferData1_def)
  have v2: "vertexCount (2, 8, Some (Float32s gVertexBufferData2)) = 3"
    by (rule vertexCount_pairs) (simp add: gVertexBufferData2_def)
  have c2: "vertexCount (3, 0, Some (Float32s gColorBufferData2)) = 3"
    by (rule vertexCount_triples) (simp add: gColorBufferData2_def)
  note v3 = vertexCount_pairs [OF assms(8)]
  note c3 = vertexCount_triples [OF assms(10)]
  note cnt = count_small [OF assms(13)]
  show "\<exists>d1 d2 d3. draws (testing3_render w d r gl) = draws gl @ [d1, d2, d3]
            \<and> inBounds d1 \<and> inBounds d2 \<and> inBounds d3"
    using indices_below [of n]
    by (cases w)
      (simp add: testing3_render_def gl_frame_defs split_def Let_def assms(1-7,9,11,12)
        List.insert_def inBounds_def v1 v2 c2 v3 c3 cnt
        gElementBufferData1_def gElementBufferData2_def)
  show "enabled (testing3_render w d r gl) = []"
    by (cases w)
      (simp add: testing3_render_def gl_frame_defs split_def Let_def assms(1) List.insert_def)
  show "buffers (testing3_render w d r gl) = buffers gl"
    by (cases w) (simp add: testing3_render_def gl_frame_defs split_def Let_def)
qed

lemma andThen_Inr:
  assumes "andThen m f = Inr y"
  obtains v where "m = Inr v" and "f v = Inr y"
  using assms by (cases m) (simp_all add: andThen_def)

lemma made_Inr:
  "makeShader drv t src g = Inr (s, g') \<Longrightarrow>
     buffers g' = buffers g \<and> enabled g' = enabled g \<and> draws g' = draws g
     \<and> names g' = Suc (names g)"
  "makeProgram drv vsh fsh g = Inr (s, g') \<Longrightarrow>
     buffers g' = buffers g \<and> enabled g' = enabled g \<and> draws g' = draws g
     \<and> names g' = Suc (names g)"
  by (auto simp: makeShader_cases makeProgram_cases split: if_splits)

lemma testing3_makeResources_built:
  assumes "testing3_makeResources drv gl_Init = Inr (r, gl)"
  obtains n cs vs where
    "enabled gl = []" and "draws gl = []"
    and "buffers gl (vertexBuffer1 r) = Some (Float32s gVertexBufferData1)"
    and "buffers gl (elementBuffer1 r) = Some (Uint32s gElementBufferData1)"
    and "buffers gl (vertexBuffer2 r) = Some (Float32s gVertexBufferData2)"
    and "buffers gl (elementBuffer2 r) = Some (Uint32s gElementBufferData2)"
    and "buffers gl (colorBuffer2 r) = Some (Float32s gColorBufferData2)"
    and "buffers gl (vertexBuffer3 r) = Some (Float32s vs)" and "length vs = 2 * n"
    and "buffers gl (colorBuffer3 r) = Some (Float32s cs)" and "length cs = 3 * n"
    and "buffers gl (elementBuffer3 r) = Some (Uint32s (map of_nat [0 ..< n]))"
    and "len3 r = of_nat n" and "n \<le> 160"
proof -
  obtain n cs vs where circle:
    "testing3_circle 0 ([], [], [], 0) = (cs, vs, map of_nat [0 ..< n], of_nat n)"
    and len: "length cs = 3 * n" "length vs = 2 * n" "n \<le> 160" and pos: "1 \<le> n"
    by (rule circle_result)
  from len pos have "cs \<noteq> []" "vs \<noteq> []" "map of_nat [0 ..< n] \<noteq> ([] :: uint32 list)"
    by auto
  then have ptr: "gl_Ptr (Float32s cs) = Inr (Float32s cs)"
    "gl_Ptr (Float32s vs) = Inr (Float32s vs)"
    "gl_Ptr (Uint32s (map of_nat [0 ..< n])) = Inr (Uint32s (map of_nat [0 ..< n]))"
    by (simp_all add: gl_Ptr_nonempty)
  let ?g1 = "snd (makeBuffer ARRAY_BUFFER (Float32s gVertexBufferData1)
                    (4 * length gVertexBufferData1) gl_Init)"
  let ?g2 = "snd (makeBuffer ELEMENT_ARRAY_BUFFER (Uint32s gElementBufferData1)
                    (4 * length gElementBufferData1) ?g1)"
  let ?g3 = "snd (makeBuffer ARRAY_BUFFER (Float32s gVertexBufferData2)
                    (4 * length gVertexBufferData2) ?g2)"
  let ?g4 = "snd (makeBuffer ELEMENT_ARRAY_BUFFER (Uint32s gElementBufferData2)
                    (4 * length gElementBufferData2) ?g3)"
  let ?g5 = "snd (makeBuffer ARRAY_BUFFER (Float32s gColorBufferData2)
                    (4 * length gColorBufferData2) ?g4)"
  have init: "names gl_Init = 0" "enabled gl_Init = []" "draws gl_Init = []"
    "buffers gl_Init = (\<lambda>b. None)"
    by (simp_all add: gl_Init_def)
  from assms obtain s1 g6 s2 g7 p1 g8 s3 g9 s4 g10 p2 g11 where
    steps: "makeShader drv VERTEX_SHADER vector_glsl1 ?g5 = Inr (s1, g6)"
      "makeShader drv FRAGMENT_SHADER fragment_glsl1 g6 = Inr (s2, g7)"
      "makeProgram drv s1 s2 g7 = Inr (p1, g8)"
      "makeShader drv VERTEX_SHADER vector_glsl2 g8 = Inr (s3, g9)"
      "makeShader drv FRAGMENT_SHADER fragment_glsl2 g9 = Inr (s4, g10)"
      "makeProgram drv s3 s4 g10 = Inr (p2, g11)"
    and r: "vertexBuffer1 r = 1" "elementBuffer1 r = 2" "vertexBuffer2 r = 3"
      "elementBuffer2 r = 4" "colorBuffer2 r = 5"
      "vertexBuffer3 r = of_nat (Suc (names g11))"
      "elementBuffer3 r = of_nat (Suc (Suc (names g11)))"
      "colorBuffer3 r = of_nat (Suc (Suc (Suc (names g11))))"
      "len3 r = of_nat n"
    and gl: "gl = snd (makeBuffer ARRAY_BUFFER (Float32s cs) (4 * length cs)
               (snd (makeBuffer ELEMENT_ARRAY_BUFFER (Uint32s (map of_nat [0 ..< n]))
                       (4 * length (map of_nat [0 ..< n] :: uint32 list))
                  (snd (makeBuffer ARRAY_BUFFER (Float32s vs) (4 * length vs) g11)))))"
    by (auto simp: testing3_makeResources_def split_def Let_def init circle ptr
        elim!: andThen_Inr)
  note k = made_Inr(1) [OF steps(1)] made_Inr(1) [OF steps(2)] made_Inr(2) [OF steps(3)]
    made_Inr(1) [OF steps(4)] made_Inr(1) [OF steps(5)] made_Inr(2) [OF steps(6)]
  from k have names: "names g11 = 11" by (simp add: init)
  from k have same: "buffers g11 = buffers ?g5" "enabled g11 = []" "draws g11 = []"
    by (simp_all add: init)
  have "enabled gl = []" "draws gl = []"
    "buffers gl (vertexBuffer1 r) = Some (Float32s gVertexBufferData1)"
    "buffers gl (elementBuffer1 r) = Some (Uint32s gElementBufferData1)"
    "buffers gl (vertexBuffer2 r) = Some (Float32s gVertexBufferData2)"
    "buffers gl (elementBuffer2 r) = Some (Uint32s gElementBufferData2)"
    "buffers gl (colorBuffer2 r) = Some (Float32s gColorBufferData2)"
    "buffers gl (vertexBuffer3 r) = Some (Float32s vs)"
    "buffers gl (colorBuffer3 r) = Some (Float32s cs)"
    "buffers gl (elementBuffer3 r) = Some (Uint32s (map of_nat [0 ..< n]))"
    by (simp_all add: gl r names same init)
  with len r(9) show ?thesis by (intro that [of vs n cs])
qed

lemma testing3_frames_inBounds:
  assumes "enabled gl = []"
    and "buffers gl (vertexBuffer1 r) = Some (Float32s gVertexBufferData1)"
    and "buffers gl (elementBuffer1 r) = Some (Uint32s gElementBufferData1)"
    and "buffers gl (vertexBuffer2 r) = Some (Float32s gVertexBufferData2)"
    and "buffers gl (elementBuffer2 r) = Some (Uint32s gElementBufferData2)"
    and "buffers gl (colorBuffer2 r) = Some (Float32s gColorBufferData2)"
    and "buffers gl (vertexBuffer3 r) = Some (Float32s vs)" and "length vs = 2 * n"
    and "buffers gl (colorBuffer3 r) = Some (Float32s cs)" and "length cs = 3 * n"
    and "buffers gl (elementBuffer3 r) = Some (Uint32s (map of_nat [0 ..< n]))"
    and "len3 r = of_nat n" and "n \<le> 160"
    and "list_all inBounds (draws gl)"
  shows "list_all inBounds (draws (testing3_frames r ticks gl))
     \<and> length (draws (testing3_frames r ticks gl)) = length (draws gl) + 3 * length ticks"
  using assms
proof (induction ticks arbitrary: gl)
  case Nil
  then show ?case by (simp add: testing3_frames_def)
next
  case (Cons t ticks)
  obtain w d where t: "t = (w, d)" by (cases t)
  let ?gl = "testing3_render w d r gl"
  note one = testing3_render_inBounds [OF Cons.prems(1-13), of w d]
  from one(1) obtain d1 d2 d3 where
    ds: "draws ?gl = draws gl @ [d1, d2, d3]" "inBounds d1" "inBounds d2" "inBounds d3"
    by blast
  have "list_all inBounds (draws (testing3_frames r ticks ?gl))
     \<and> length (draws (testing3_frames r ticks ?gl)) = length (draws ?gl) + 3 * length ticks"
    using Cons.prems ds by (intro Cons.IH) (simp_all add: one(2,3))
  then show ?case by (simp add: testing3_frames_def t ds(1))
qed

lemma hello_render_inBounds:
  assumes "enabled gl = []"
    and "buffers gl (vertexBuffer r) = Some (Float32s gVertexBufferData)"
    and "buffers gl (elementBuffer r) = Some (Uint32s gElementBufferData)"
  shows "\<exists>d1. draws (hello_render w r gl) = draws gl @ [d1] \<and> inBounds d1"
    and "enabled (hello_render w r gl) = []"
    and "buffers (hello_render w r gl) = buffers gl"
proof -
  have v: "vertexCount (2, 8, Some (Float32s gVertexBufferData)) = 4"
    by (rule vertexCount_pairs) (simp add: gVertexBufferData_def)
  show "\<exists>d1. draws (hello_render w r gl) = draws gl @ [d1] \<and> inBounds d1"
    by (cases w)
      (simp add: hello_render_def gl_frame_defs assms inBounds_def v gElementBufferData_def)
  show "enabled (hello_render w r gl) = []"
    by (cases w) (simp add: hello_render_def gl_frame_defs assms(1))
  show "buffers (hello_render w r gl) = buffers gl"
    by (cases w) (simp add: hello_render_def gl_frame_defs)
qed

lemma hello_frames_inBounds:
  assumes "enabled gl = []"
    and "buffers gl (vertexBuffer r) = Some (Float32s gVertexBufferData)"
    and "buffers gl (elementBuffer r) = Some (Uint32s gElementBufferData)"
    and "list_all inBounds (draws gl)"
  shows "list_all inBounds (draws (hello_frames r ticks gl))
     \<and> length (draws (hello_frames r ticks gl)) = length (draws gl) + length ticks"
  using assms
proof (induction ticks arbitrary: r gl)
  case Nil
  then show ?case by (simp add: hello_frames_def)
next
  case (Cons t ticks)
  obtain w seconds where t: "t = (w, seconds)" by (cases t)
  let ?r = "updateFadeFactor seconds r"
  let ?gl = "hello_render w ?r gl"
  have same: "vertexBuffer ?r = vertexBuffer r" "elementBuffer ?r = elementBuffer r"
    by (simp_all add: updateFadeFactor_def)
  note one = hello_render_inBounds [of gl ?r w, unfolded same, OF Cons.prems(1-3)]
  from one(1) obtain d1 where ds: "draws ?gl = draws gl @ [d1]" "inBounds d1" by blast
  have "list_all inBounds (draws (hello_frames ?r ticks ?gl))
     \<and> length (draws (hello_frames ?r ticks ?gl)) = length (draws ?gl) + length ticks"
    using Cons.prems ds by (intro Cons.IH) (simp_all add: one(2,3) same)
  then show ?case by (simp add: hello_frames_def t ds(1))
qed

lemma hello_makeTexture_Inr:
  assumes "hello_makeTexture disk filename gl = Inr (t, gl')"
  shows "names gl' = Suc (names gl) \<and> buffers gl' = buffers gl \<and> enabled gl' = enabled gl
     \<and> draws gl' = draws gl \<and> programs gl' = programs gl \<and> shaders gl' = shaders gl"
proof -
  from assms obtain img where d: "disk filename = Decodes img"
    by (cases "disk filename") (simp_all add: hello_makeTexture_def)
  from assms d obtain rgba where n: "image_NewRGBA (Bounds img) = Inr rgba"
    by (cases "image_NewRGBA (Bounds img)") (simp_all add: hello_makeTexture_def)
  from assms show ?thesis
    by (simp add: hello_makeTexture_def d n gl_texture_defs gl_Ptr_Pix_def Let_def
        split: if_splits) auto
qed

lemma hello_makeResources_built:
  assumes "hello_makeResources drv disk gl_Init = Inr (r, gl)"
  shows "enabled gl = []" and "draws gl = []"
    and "buffers gl (vertexBuffer r) = Some (Float32s gVertexBufferData)"
    and "buffers gl (elementBuffer r) = Some (Uint32s gElementBufferData)"
proof -
  let ?g1 = "snd (makeBuffer ARRAY_BUFFER (Float32s gVertexBufferData)
                    (4 * length gVertexBufferData) gl_Init)"
  let ?g2 = "snd (makeBuffer ELEMENT_ARRAY_BUFFER (Uint32s gElementBufferData)
                    (4 * length gElementBufferData) ?g1)"
  have init: "names gl_Init = 0" "enabled gl_Init = []" "draws gl_Init = []"
    by (simp_all add: gl_Init_def)
  from assms obtain t0 g3 t1 g4 s1 g5 s2 g6 p where
    steps: "hello_makeTexture disk ''hello1.png'' ?g2 = Inr (t0, g3)"
      "hello_makeTexture disk ''hello2.png'' g3 = Inr (t1, g4)"
      "makeShader drv VERTEX_SHADER v_glsl g4 = Inr (s1, g5)"
      "makeShader drv FRAGMENT_SHADER f_glsl g5 = Inr (s2, g6)"
      "makeProgram drv s1 s2 g6 = Inr (p, gl)"
    and r: "vertexBuffer r = 1" "elementBuffer r = 2"
    by (auto simp: hello_makeResources_def split_def Let_def init elim!: andThen_Inr)
  note k0 = hello_makeTexture_Inr [OF steps(1)]
  note k1 = hello_makeTexture_Inr [OF steps(2)]
  note k2 = made_Inr(1) [OF steps(3)]
  note k3 = made_Inr(1) [OF steps(4)]
  note k4 = made_Inr(2) [OF steps(5)]
  from r k0 k1 k2 k3 k4 show "enabled gl = []" and "draws gl = []"
    and "buffers gl (vertexBuffer r) = Some (Float32s gVertexBufferData)"
    and "buffers gl (elementBuffer r) = Some (Uint32s gElementBufferData)"
    by (simp_all add: init)
qed

text \<open>
  C9. When resource construction returns, every indexed draw call of every frame finds an
  element buffer whose length is the count it passes, and every index in that buffer is
  less than the number of vertices of each attribute array enabled for the draw. The
  shader demo makes three such calls in a frame, the textured demo one.
\<close>

theorem indexed_draws_in_bounds:
  "(testing3_makeResources drv gl_Init = Inr (r3, gl3) \<longrightarrow>
      list_all inBounds (draws (testing3_frames r3 ticks gl3))
      \<and> length (draws (testing3_frames r3 ticks gl3)) = 3 * length ticks)
   \<and> (hello_makeResources drv disk gl_Init = Inr (r, gl) \<longrightarrow>
      list_all inBounds (draws (hello_frames r ticks gl))
      \<and> length (draws (hello_frames r ticks gl)) = length ticks)"
proof (intro conjI impI)
  assume built: "testing3_makeResources drv gl_Init = Inr (r3, gl3)"
  from built obtain n cs vs where
    f: "enabled gl3 = []" "draws gl3 = []"
      "buffers gl3 (vertexBuffer1 r3) = Some (Float32s gVertexBufferData1)"
      "buffers gl3 (elementBuffer1 r3) = Some (Uint32s gElementBufferData1)"
      "buffers gl3 (vertexBuffer2 r3) = Some (Float32s gVertexBufferData2)"
      "buffers gl3 (elementBuffer2 r3) = Some (Uint32s gElementBufferData2)"
      "buffers gl3 (colorBuffer2 r3) = Some (Float32s gColorBufferData2)"
      "buffers gl3 (vertexBuffer3 r3) = Some (Float32s vs)" "length vs = 2 * n"
      "buffers gl3 (colorBuffer3 r3) = Some (Float32s cs)" "length cs = 3 * n"
      "buffers gl3 (elementBuffer3 r3) = Some (Uint32s (map of_nat [0 ..< n]))"
      "len3 r3 = of_nat n" "n \<le> 160"
    by (rule testing3_makeResources_built)
  have "list_all inBounds (draws gl3)" by (simp add: f(2))
  from testing3_frames_inBounds [OF f(1) f(3-14) this, of ticks]
  show "list_all inBounds (draws (testing3_frames r3 ticks gl3))"
    and "length (draws (testing3_frames r3 ticks gl3)) = 3 * length ticks"
    by (simp_all add: f(2))
next
  assume built: "hello_makeResources drv disk gl_Init = Inr (r, gl)"
  note f = hello_makeResources_built [OF built]
  have "list_all inBounds (draws gl)" by (simp add: f(2))
  from hello_frames_inBounds [OF f(1) f(3,4) this, of ticks]
  show "list_all inBounds (draws (hello_frames r ticks gl))"
    and "length (draws (hello_frames r ticks gl)) = length ticks"
    by (simp_all add: f(2))
qed

lemma hello_makeTexture_loads:
  assumes "loads disk filename"
  shows "\<exists>t g. hello_makeTexture disk filename gl = Inr (t, g)"
proof -
  from assms obtain img where d: "disk filename = Decodes img"
    and "\<not> isl (image_NewRGBA (Bounds img))"
    and area: "4 * Dx (Bounds img) * Dy (Bounds img) \<noteq> 0"
    by (auto simp: loads_def split: opened.splits)
  then obtain rgba where n: "image_NewRGBA (Bounds img) = Inr rgba"
    by (cases "image_NewRGBA (Bounds img)") auto
  from NewRGBA_tight [OF n]
  have "Stride rgba = fst (Size (Rect rgba)) * 4" and "Rect rgba = Bounds img" by simp_all
  with area show ?thesis
    by (simp add: hello_makeTexture_def d n Let_def split_def gl_Ptr_Pix_def)
qed

lemma hello_main_after_textures:
  assumes "loads disk ''hello1.png''" and "loads disk ''hello2.png''"
  shows "\<not> compileStatus drv VERTEX_SHADER v_glsl \<Longrightarrow>
      exitMessage (hello_main drv disk) = Some (compileFailure drv VERTEX_SHADER v_glsl)
      \<and> programs (contextOf (hello_main drv disk)) = Map.empty"
    and "compileStatus drv VERTEX_SHADER v_glsl \<Longrightarrow>
      \<not> compileStatus drv FRAGMENT_SHADER f_glsl \<Longrightarrow>
      exitMessage (hello_main drv disk) = Some (compileFailure drv FRAGMENT_SHADER f_glsl)
      \<and> programs (contextOf (hello_main drv disk)) = Map.empty"
    and "compileStatus drv VERTEX_SHADER v_glsl \<Longrightarrow>
      compileStatus drv FRAGMENT_SHADER f_glsl \<Longrightarrow> (\<And>ss. linkStatus drv ss) \<Longrightarrow>
      \<not> isl (hello_makeResources drv disk gl_Init)"
proof -
  let ?g1 = "snd (makeBuffer ARRAY_BUFFER (Float32s gVertexBufferData)
                    (4 * length gVertexBufferData) gl_Init)"
  let ?g2 = "snd (makeBuffer ELEMENT_ARRAY_BUFFER (Uint32s gElementBufferData)
                    (4 * length gElementBufferData) ?g1)"
  from hello_makeTexture_loads [OF assms(1)]
  obtain t0 g3 where t0: "hello_makeTexture disk ''hello1.png'' ?g2 = Inr (t0, g3)" by blast
  from hello_makeTexture_loads [OF assms(2)]
  obtain t1 g4 where t1: "hello_makeTexture disk ''hello2.png'' g3 = Inr (t1, g4)" by blast
  have "programs gl_Init = Map.empty" by (simp add: gl_Init_def)
  with hello_makeTexture_Inr [OF t0] hello_makeTexture_Inr [OF t1]
  have none: "programs g4 = Map.empty" by simp
  show "\<not> compileStatus drv VERTEX_SHADER v_glsl \<Longrightarrow>
      exitMessage (hello_main drv disk) = Some (compileFailure drv VERTEX_SHADER v_glsl)
      \<and> programs (contextOf (hello_main drv disk)) = Map.empty"
    by (simp add: hello_main_def exitMessage_def contextOf_def hello_makeResources_def
        split_def Let_def t0 t1 makeShader_cases sources_terminated none)
  show "compileStatus drv VERTEX_SHADER v_glsl \<Longrightarrow>
      \<not> compileStatus drv FRAGMENT_SHADER f_glsl \<Longrightarrow>
      exitMessage (hello_main drv disk) = Some (compileFailure drv FRAGMENT_SHADER f_glsl)
      \<and> programs (contextOf (hello_main drv disk)) = Map.empty"
    by (simp add: hello_main_def exitMessage_def contextOf_def hello_makeResources_def
        split_def Let_def t0 t1 makeShader_cases sources_terminated none)
  show "compileStatus drv VERTEX_SHADER v_glsl \<Longrightarrow>
      compileStatus drv FRAGMENT_SHADER f_glsl \<Longrightarrow> (\<And>ss. linkStatus drv ss) \<Longrightarrow>
      \<not> isl (hello_makeResources drv disk gl_Init)"
    by (simp add: hello_makeResources_def split_def Let_def t0 t1 makeShader_cases
        makeProgram_cases sources_terminated)
qed

theorem indexed_draws_in_bounds_witness:
  "\<exists>r3 gl3 r gl.
     testing3_makeResources driver_accepting gl_Init = Inr (r3, gl3)
     \<and> list_all inBounds (draws (testing3_frames r3 [((640, 480), 0), ((640, 480), 1)] gl3))
     \<and> length (draws (testing3_frames r3 [((640, 480), 0), ((640, 480), 1)] gl3)) = 6
     \<and> hello_makeResources driver_accepting disk_twoRows gl_Init = Inr (r, gl)
     \<and> list_all inBounds (draws (hello_frames r [((640, 480), 0), ((640, 480), 1)] gl))
     \<and> length (draws (hello_frames r [((640, 480), 0), ((640, 480), 1)] gl)) = 2"
proof -
  obtain n cs vs where circle:
    "testing3_circle 0 ([], [], [], 0) = (cs, vs, map of_nat [0 ..< n], of_nat n)"
    and len: "length cs = 3 * n" "length vs = 2 * n" and pos: "1 \<le> n"
    by (rule circle_result)
  from len pos have "cs \<noteq> []" "vs \<noteq> []" "map of_nat [0 ..< n] \<noteq> ([] :: uint32 list)"
    by auto
  then have ptr: "gl_Ptr (Float32s cs) = Inr (Float32s cs)"
    "gl_Ptr (Float32s vs) = Inr (Float32s vs)"
    "gl_Ptr (Uint32s (map of_nat [0 ..< n])) = Inr (Uint32s (map of_nat [0 ..< n]))"
    by (simp_all add: gl_Ptr_nonempty)
  have "\<not> isl (testing3_makeResources driver_accepting gl_Init)"
    by (simp add: testing3_makeResources_def makeShader_cases makeProgram_cases andThen_if
        sources_terminated split_def Let_def driver_accepting_def circle ptr)
  then obtain r3 gl3 where t: "testing3_makeResources driver_accepting gl_Init = Inr (r3, gl3)"
    by (cases "testing3_makeResources driver_accepting gl_Init") auto
  have l: "loads disk_twoRows ''hello1.png''" "loads disk_twoRows ''hello2.png''"
    by (simp_all add: loads_def disk_twoRows_def twoRows_def image_Rect_def image_NewRGBA_def
        Dx_def Dy_def)
  have "\<not> isl (hello_makeResources driver_accepting disk_twoRows gl_Init)"
    by (rule hello_main_after_textures(3) [OF l]) (simp_all add: driver_accepting_def)
  then obtain r gl where h: "hello_makeResources driver_accepting disk_twoRows gl_Init = Inr (r, gl)"
    by (cases "hello_makeResources driver_accepting disk_twoRows gl_Init") auto
  from indexed_draws_in_bounds
    [of driver_accepting r3 gl3 "[((640, 480), 0), ((640, 480), 1)]" disk_twoRows r gl] t h
  show ?thesis by simp
qed

section \<open>Properties of shader compilation\<close>

lemma testing3_main_failures:
  "\<not> compileStatus drv VERTEX_SHADER vector_glsl1 \<Longrightarrow>
     exitMessage (testing3_main drv) = Some (compileFailure drv VERTEX_SHADER vector_glsl1)
     \<and> programs (contextOf (testing3_main drv)) = Map.empty"
  "compileStatus drv VERTEX_SHADER vector_glsl1 \<Longrightarrow>
   \<not> compileStatus drv FRAGMENT_SHADER fragment_glsl1 \<Longrightarrow>
     exitMessage (testing3_main drv) = Some (compileFailure drv FRAGMENT_SHADER fragment_glsl1)
     \<and> programs (contextOf (testing3_main drv)) = Map.empty"
  "compileStatus drv VERTEX_SHADER vector_glsl1 \<Longrightarrow>
   compileStatus drv FRAGMENT_SHADER fragment_glsl1 \<Longrightarrow>
   linkStatus drv [Some (VERTEX_SHADER, vector_glsl1), Some (FRAGMENT_SHADER, fragment_glsl1)] \<Longrightarrow>
   \<not> compileStatus drv VERTEX_SHADER vector_glsl2 \<Longrightarrow>
     exitMessage (testing3_main drv) = Some (compileFailure drv VERTEX_SHADER vector_glsl2)
     \<and> programs (contextOf (testing3_main drv)) = [8 \<mapsto> [6, 7]]"
  "compileStatus drv VERTEX_SHADER vector_glsl1 \<Longrightarrow>
   compileStatus drv FRAGMENT_SHADER fragment_glsl1 \<Longrightarrow>
   linkStatus drv [Some (VERTEX_SHADER, vector_glsl1), Some (FRAGMENT_SHADER, fragment_glsl1)] \<Longrightarrow>
   compileStatus drv VERTEX_SHADER vector_glsl2 \<Longrightarrow>
   \<not> compileStatus drv FRAGMENT_SHADER fragment_glsl2 \<Longrightarrow>
     exitMessage (testing3_main drv) = Some (compileFailure drv FRAGMENT_SHADER fragment_glsl2)
     \<and> programs (contextOf (testing3_main drv)) = [8 \<mapsto> [6, 7]]"
  by (simp_all add: testing3_main_def exitMessage_def contextOf_def testing3_makeResources_def
      makeShader_cases makeProgram_cases split_def Let_def gl_Init_def sources_terminated)

lemma sources_differ:
  "vector_glsl1 \<noteq> vector_glsl2" "fragment_glsl1 \<noteq> fragment_glsl2"
  by (simp_all add: vector_glsl1_def vector_glsl2_def fragment_glsl1_def fragment_glsl2_def
      unlines_def)

text \<open>
  C8, as stated, fails for the shader demo: when the vertex shader of its second pair does
  not compile, the process ends with the message for that shader, and in the context that
  it leaves program 8 exists, with shaders 6 and 7 (the first pair) attached.
\<close>

theorem second_pair_failure_keeps_first_program:
  "exitMessage (testing3_main (driver_rejecting (VERTEX_SHADER, vector_glsl2))) =
     Some (Fatal (''failed to compile '' @ vector_glsl2 @ '': 0:1: syntax error''
                  @ [CHR 0x00, CHR 0x00]))
   \<and> programs (contextOf (testing3_main (driver_rejecting (VERTEX_SHADER, vector_glsl2)))) 8 =
     Some [6, 7]
   \<and> shaders (contextOf (testing3_main (driver_rejecting (VERTEX_SHADER, vector_glsl2)))) 6 =
     Some (VERTEX_SHADER, vector_glsl1)
   \<and> shaders (contextOf (testing3_main (driver_rejecting (VERTEX_SHADER, vector_glsl2)))) 7 =
     Some (FRAGMENT_SHADER, fragment_glsl1)"
proof -
  let ?drv = "driver_rejecting (VERTEX_SHADER, vector_glsl2)"
  have ok: "compileStatus ?drv VERTEX_SHADER vector_glsl1"
    "compileStatus ?drv FRAGMENT_SHADER fragment_glsl1"
    "\<not> compileStatus ?drv VERTEX_SHADER vector_glsl2"
    "\<And>ss. linkStatus ?drv ss"
    by (simp_all add: driver_rejecting_def sources_differ)
  have "shaders (contextOf (testing3_main ?drv)) 6 = Some (VERTEX_SHADER, vector_glsl1)
      \<and> shaders (contextOf (testing3_main ?drv)) 7 = Some (FRAGMENT_SHADER, fragment_glsl1)"
    using ok
    by (simp add: testing3_main_def contextOf_def testing3_makeResources_def
        makeShader_cases makeProgram_cases split_def Let_def gl_Init_def sources_terminated)
  with testing3_main_failures(3) [of ?drv] ok show ?thesis
    by (simp add: compileFailure_def driver_rejecting_def)
qed

text \<open>
  C8, amended. When a shader (a source text that ends with NUL, as \<^verbatim>\<open>gl.Str\<close> demands)
  does not compile, \<^verbatim>\<open>makeShader\<close> ends the process with a message that holds the shader's
  source text and the diagnostic log, in a context where the shader object has been
  created and no program has been added. In both demos \<^verbatim>\<open>main\<close> then exits with the
  message for the first shader that fails, so no resources reach the render loop. At that
  exit no program exists in the textured demo (whose two textures, of at least one pixel,
  are loaded before the shaders are compiled) and none in the shader demo when the
  failing shader belongs to its first pair; when it belongs to the second pair, the first
  program, which has been created and linked before, is the only one.
\<close>

theorem shader_compile_failure_is_fatal:
  "(source \<noteq> [] \<and> last source = CHR 0x00
      \<and> \<not> compileStatus drv shaderType source \<longrightarrow>
      makeShader drv shaderType source gl =
        Inl (compileFailure drv shaderType source,
             gl_ShaderSource (of_nat (Suc (names gl))) source
               (snd (gl_CreateShader shaderType gl)))
      \<and> programs (gl_ShaderSource (of_nat (Suc (names gl))) source
                    (snd (gl_CreateShader shaderType gl))) = programs gl)
   \<and> (\<not> compileStatus drv VERTEX_SHADER vector_glsl1 \<longrightarrow>
      exitMessage (testing3_main drv) = Some (compileFailure drv VERTEX_SHADER vector_glsl1)
      \<and> programs (contextOf (testing3_main drv)) = Map.empty)
   \<and> (compileStatus drv VERTEX_SHADER vector_glsl1
      \<and> \<not> compileStatus drv FRAGMENT_SHADER fragment_glsl1 \<longrightarrow>
      exitMessage (testing3_main drv) = Some (compileFailure drv FRAGMENT_SHADER fragment_glsl1)
      \<and> programs (contextOf (testing3_main drv)) = Map.empty)
   \<and> (compileStatus drv VERTEX_SHADER vector_glsl1
      \<and> compileStatus drv FRAGMENT_SHADER fragment_glsl1
      \<and> linkStatus drv
            [Some (VERTEX_SHADER, vector_glsl1), Some (FRAGMENT_SHADER, fragment_glsl1)]
      \<and> \<not> compileStatus drv VERTEX_SHADER vector_glsl2 \<longrightarrow>
      exitMessage (testing3_main drv) = Some (compileFailure drv VERTEX_SHADER vector_glsl2)
      \<and> programs (contextOf (testing3_main drv)) = [8 \<mapsto> [6, 7]])
   \<and> (compileStatus drv VERTEX_SHADER vector_glsl1
      \<and> compileStatus drv FRAGMENT_SHADER fragment_glsl1
      \<and> linkStatus drv
            [Some (VERTEX_SHADER, vector_glsl1), Some (FRAGMENT_SHADER, fragment_glsl1)]
      \<and> compileStatus drv VERTEX_SHADER vector_glsl2
      \<and> \<not> compileStatus drv FRAGMENT_SHADER fragment_glsl2 \<longrightarrow>
      exitMessage (testing3_main drv) = Some (compileFailure drv FRAGMENT_SHADER fragment_glsl2)
      \<and> programs (contextOf (testing3_main drv)) = [8 \<mapsto> [6, 7]])
   \<and> (loads disk ''hello1.png'' \<and> loads disk ''hello2.png''
      \<and> \<not> compileStatus drv VERTEX_SHADER v_glsl \<longrightarrow>
      exitMessage (hello_main drv disk) = Some (compileFailure drv VERTEX_SHADER v_glsl)
      \<and> programs (contextOf (hello_main drv disk)) = Map.empty)
   \<and> (loads disk ''hello1.png'' \<and> loads disk ''hello2.png''
      \<and> compileStatus drv VERTEX_SHADER v_glsl
      \<and> \<not> compileStatus drv FRAGMENT_SHADER f_glsl \<longrightarrow>
      exitMessage (hello_main drv disk) = Some (compileFailure drv FRAGMENT_SHADER f_glsl)
      \<and> programs (contextOf (hello_main drv disk)) = Map.empty)"
  by (simp add: makeShader_cases testing3_main_failures hello_main_after_textures(1,2))

theorem shader_compile_failure_is_fatal_witness:
  "ended (makeShader (driver_rejecting (VERTEX_SHADER, v_glsl)) VERTEX_SHADER v_glsl gl_Init) =
     Some (Fatal (''failed to compile '' @ v_glsl @ '': 0:1: syntax error''
                  @ [CHR 0x00, CHR 0x00]))
   \<and> exitMessage (testing3_main (driver_rejecting (VERTEX_SHADER, vector_glsl1))) =
     Some (Fatal (''failed to compile '' @ vector_glsl1 @ '': 0:1: syntax error''
                  @ [CHR 0x00, CHR 0x00]))
   \<and> programs (contextOf (testing3_main (driver_rejecting (VERTEX_SHADER, vector_glsl1)))) =
     Map.empty
   \<and> exitMessage (testing3_main (driver_rejecting (FRAGMENT_SHADER, fragment_glsl1))) =
     Some (Fatal (''failed to compile '' @ fragment_glsl1 @ '': 0:1: syntax error''
                  @ [CHR 0x00, CHR 0x00]))
   \<and> programs (contextOf (testing3_main (driver_rejecting (FRAGMENT_SHADER, fragment_glsl1)))) =
     Map.empty
   \<and> exitMessage (testing3_main (driver_rejecting (VERTEX_SHADER, vector_glsl2))) =
     Some (Fatal (''failed to compile '' @ vector_glsl2 @ '': 0:1: syntax error''
                  @ [CHR 0x00, CHR 0x00]))
   \<and> programs (contextOf (testing3_main (driver_rejecting (VERTEX_SHADER, vector_glsl2)))) =
     [8 \<mapsto> [6, 7]]
   \<and> exitMessage (testing3_main (driver_rejecting (FRAGMENT_SHADER, fragment_glsl2))) =
     Some (Fatal (''failed to compile '' @ fragment_glsl2 @ '': 0:1: syntax error''
                  @ [CHR 0x00, CHR 0x00]))
   \<and> programs (contextOf (testing3_main (driver_rejecting (FRAGMENT_SHADER, fragment_glsl2)))) =
     [8 \<mapsto> [6, 7]]
   \<and> exitMessage (hello_main (driver_rejecting (VERTEX_SHADER, v_glsl)) disk_twoRows) =
     Some (Fatal (''failed to compile '' @ v_glsl @ '': 0:1: syntax error''
                  @ [CHR 0x00, CHR 0x00]))
   \<and> programs (contextOf (hello_main (driver_rejecting (VERTEX_SHADER, v_glsl)) disk_twoRows)) =
     Map.empty
   \<and> exitMessage (hello_main (driver_rejecting (FRAGMENT_SHADER, f_glsl)) disk_twoRows) =
     Some (Fatal (''failed to compile '' @ f_glsl @ '': 0:1: syntax error''
                  @ [CHR 0x00, CHR 0x00]))
   \<and> programs (contextOf (hello_main (driver_rejecting (FRAGMENT_SHADER, f_glsl)) disk_twoRows)) =
     Map.empty"
proof -
  have l: "loads disk_twoRows ''hello1.png''" "loads disk_twoRows ''hello2.png''"
    by (simp_all add: loads_def disk_twoRows_def twoRows_def image_Rect_def image_NewRGBA_def
        Dx_def Dy_def)
  note inst = shader_compile_failure_is_fatal
    [where gl = gl_Init and disk = disk_twoRows and shaderType = VERTEX_SHADER
       and source = v_glsl]
  from inst [of "driver_rejecting (VERTEX_SHADER, v_glsl)"]
    inst [of "driver_rejecting (VERTEX_SHADER, vector_glsl1)"]
    inst [of "driver_rejecting (FRAGMENT_SHADER, fragment_glsl1)"]
    inst [of "driver_rejecting (VERTEX_SHADER, vector_glsl2)"]
    inst [of "driver_rejecting (FRAGMENT_SHADER, fragment_glsl2)"]
    inst [of "driver_rejecting (FRAGMENT_SHADER, f_glsl)"]
  show ?thesis
    by (simp add: driver_rejecting_def compileFailure_def l sources_differ sources_terminated)
qed

end
